theory Spec2Isabelle
  imports Complex_Main "HOL-Library.Monad_Syntax"
begin

section \<open>The parsed model file\<close>

text \<open>
  \<^verbatim>\<open>loadModel\<close> reads the model with \<^verbatim>\<open>geoResp.json()\<close>, so what it works on is a tree of
  JSON values. Numbers are IEEE doubles in the browser; here they are real numbers, so
  rounding, overflow and NaN are outside the model. An absent property (JavaScript's
  \<^verbatim>\<open>undefined\<close>) is \<open>None\<close> of type \<open>json option\<close>. In an object a later binding of a
  key replaces an earlier one, as \<^verbatim>\<open>JSON.parse\<close> does.
\<close>

datatype json =
    JNull
  | JBool bool
  | JNum real
  | JStr string
  | JArr "json list"
  | JObj "(string \<times> json) list"

datatype error = MissingFiles | TypeError

type_synonym vec3 = "real \<times> real \<times> real"

abbreviation vx :: "vec3 \<Rightarrow> real" where "vx v \<equiv> fst v"
abbreviation vy :: "vec3 \<Rightarrow> real" where "vy v \<equiv> fst (snd v)"
abbreviation vz :: "vec3 \<Rightarrow> real" where "vz v \<equiv> snd (snd v)"

text \<open>
  The documented shape of a cube, bone and geometry entry: every field is optional, vectors
  are arrays of three numbers. \<^verbatim>\<open>rotation\<close> is kept as a list of any length because the code
  reads its elements with \<^verbatim>\<open>r[i]||0\<close>; \<^verbatim>\<open>uv\<close> is kept as a raw JSON value because the code
  tests its shape itself (\<^verbatim>\<open>Array.isArray(cube.uv) && cube.uv.length === 2\<close>).
\<close>

record cube =
  cube_origin :: "vec3 option"
  cube_size :: "vec3 option"
  cube_pivot :: "vec3 option"
  cube_rotation :: "real list option"
  cube_uv :: "json option"
  cube_mirror :: "bool option"

record bone =
  bone_name :: "string option"
  bone_parent :: "string option"
  bone_pivot :: "vec3 option"
  bone_cubes :: "cube list option"

record description =
  texture_width :: "real option"
  texture_height :: "real option"

record geometry =
  geo_description :: "description option"
  geo_bones :: "bone list option"

section \<open>JavaScript arithmetic on values that need not be numbers\<close>

text \<open>
  The two elements of \<^verbatim>\<open>cube.uv\<close> enter \<^verbatim>\<open>+\<close> and \<^verbatim>\<open>/\<close> unchecked. An arithmetic operator
  first converts each operand to a primitive. For values that come out of \<^verbatim>\<open>JSON.parse\<close>
  this conversion raises a TypeError exactly when it reaches an object with an own
  \<^verbatim>\<open>toString\<close> property (own properties of parsed JSON are never callable, and the inherited
  \<^verbatim>\<open>valueOf\<close> returns the object itself); an array is converted by joining the conversions
  of its elements. The model computes the result when both operands are numbers;
  otherwise the result (a concatenated string, NaN, a number obtained from \<^verbatim>\<open>null\<close> or a
  boolean) is \<open>Untracked\<close>: some primitive whose content the model does not follow.
  Division by zero gives an infinity or NaN in JavaScript and is \<open>Untracked\<close> as well.
\<close>

datatype jsvalue = Val json | Untracked

abbreviation Number :: "real \<Rightarrow> jsvalue" where
  "Number r \<equiv> Val (JNum r)"

fun coercion_throws :: "json \<Rightarrow> bool" where
  "coercion_throws (JObj kvs) = (''toString'' \<in> fst ` set kvs)"
| "coercion_throws (JArr xs) = (\<exists>x \<in> set xs. coercion_throws x)"
| "coercion_throws _ = False"

fun throws :: "jsvalue \<Rightarrow> bool" where
  "throws (Val j) = coercion_throws j"
| "throws Untracked = False"

fun arith :: "(real \<Rightarrow> real \<Rightarrow> real option) \<Rightarrow> jsvalue \<Rightarrow> jsvalue \<Rightarrow> jsvalue" where
  "arith f (Val (JNum a)) (Val (JNum b)) = (case f a b of Some r \<Rightarrow> Number r | None \<Rightarrow> Untracked)"
| "arith f _ _ = Untracked"

definition js_binop ::
  "(real \<Rightarrow> real \<Rightarrow> real option) \<Rightarrow> jsvalue \<Rightarrow> jsvalue \<Rightarrow> error + jsvalue" where
  "js_binop f a b = (if throws a \<or> throws b then Inl TypeError else Inr (arith f a b))"

definition js_add :: "jsvalue \<Rightarrow> jsvalue \<Rightarrow> error + jsvalue" where
  "js_add = js_binop (\<lambda>a b. Some (a + b))"

definition js_sub :: "jsvalue \<Rightarrow> jsvalue \<Rightarrow> error + jsvalue" where
  "js_sub = js_binop (\<lambda>a b. Some (a - b))"

definition js_div :: "jsvalue \<Rightarrow> jsvalue \<Rightarrow> error + jsvalue" where
  "js_div = js_binop (\<lambda>a b. if b = 0 then None else Some (a / b))"

text \<open>Sequencing of two steps of which the first may raise.\<close>

definition seq :: "error + 'a \<Rightarrow> ('a \<Rightarrow> error + 'b) \<Rightarrow> error + 'b" where
  "seq r f = (case r of Inl e \<Rightarrow> Inl e | Inr a \<Rightarrow> f a)"

text \<open>
  A \<^verbatim>\<open>try\<close> block of statements that change a state: each statement either raises and
  leaves the state as it found it, or returns the changed state. The block stops at the
  first statement that raises; the state then holds the effects of the statements before
  it. The result says which error was caught, if any.
\<close>

fun try_block :: "('s \<Rightarrow> error + 's) list \<Rightarrow> 's \<Rightarrow> error option \<times> 's" where
  "try_block [] s = (None, s)"
| "try_block (f # fs) s = (case f s of Inl e \<Rightarrow> (Some e, s) | Inr s' \<Rightarrow> try_block fs s')"

section \<open>The objects of the rendering engine\<close>

text \<open>
  The engine (three.js r154) is loaded from a CDN and is not part of the repository. The
  model keeps of its objects what \<^verbatim>\<open>loadModel\<close> sets and reads back. A \<^verbatim>\<open>BoxGeometry\<close> holds
  its three dimensions and its UV attribute, a \<^verbatim>\<open>Float32Array\<close> of 6 faces times 4 vertices
  times 2 components; an entry \<open>None\<close> is a float the model does not follow (see
  \<open>Untracked\<close>), and the rounding of a stored number to single precision is left out
  like all rounding. The engine fills the four vertices of each face with the corners
  \<open>(0,1) (1,1) (0,0) (1,0)\<close>. The material and its texture are the same for every mesh
  and are left out, and so is the flag \<^verbatim>\<open>needsUpdate\<close> of the attribute.
\<close>

record box_geometry =
  box_width :: real
  box_height :: real
  box_depth :: real
  uv_array :: "real option list"

definition default_uvs :: "real option list" where
  "default_uvs = concat (replicate 6 [Some 0, Some 1, Some 1, Some 1, Some 0, Some 0, Some 1, Some 0])"

definition BoxGeometry :: "real \<Rightarrow> real \<Rightarrow> real \<Rightarrow> box_geometry" where
  "BoxGeometry w h d = \<lparr>box_width = w, box_height = h, box_depth = d, uv_array = default_uvs\<rparr>"

text \<open>
  An Euler rotation keeps its three angles (radians) and its order. \<^verbatim>\<open>Euler.set(x, y, z)\<close>
  leaves the order at the engine's default \<^verbatim>\<open>'XYZ'\<close>.
\<close>

datatype euler_order = XYZ | YXZ | ZXY | ZYX | YZX | XZY

record euler =
  euler_x :: real
  euler_y :: real
  euler_z :: real
  euler_order :: euler_order

definition default_rotation :: euler where
  "default_rotation = \<lparr>euler_x = 0, euler_y = 0, euler_z = 0, euler_order = XYZ\<rparr>"

definition degToRad :: "real \<Rightarrow> real" where
  "degToRad degrees = degrees * (pi / 180)"

record mesh =
  mesh_geometry :: box_geometry
  mesh_position :: vec3

record pivot_group =
  group_position :: vec3
  group_rotation :: euler
  group_mesh :: mesh

datatype child = ChildMesh mesh | ChildGroup pivot_group

definition Mesh :: "box_geometry \<Rightarrow> mesh" where
  "Mesh g = \<lparr>mesh_geometry = g, mesh_position = (0, 0, 0)\<rparr>"

text \<open>A store into a typed array: an index out of range is ignored, a non-number is not followed.\<close>

fun to_float :: "jsvalue \<Rightarrow> real option" where
  "to_float (Val (JNum r)) = Some r"
| "to_float _ = None"

definition store :: "real option list \<Rightarrow> nat \<Rightarrow> jsvalue \<Rightarrow> real option list" where
  "store uvs i v = (if i < length uvs then uvs[i := to_float v] else uvs)"

section \<open>Per-face UV mapping (src/minecraftviewer/app.js)\<close>

text \<open>
  \<^verbatim>\<open>setFaceUV\<close>: the four quotients are computed first, then the eight stores follow. The
  quotients are numbers, and storing a number cannot raise, so a call that raises has
  stored nothing. A parameter \<^verbatim>\<open>mirror\<close> that is \<^verbatim>\<open>undefined\<close> takes its default
  \<^verbatim>\<open>false\<close>.
\<close>

definition setFaceUV ::
  "real \<Rightarrow> real \<Rightarrow> box_geometry \<Rightarrow> nat \<Rightarrow> jsvalue \<Rightarrow> jsvalue \<Rightarrow> jsvalue \<Rightarrow> jsvalue \<Rightarrow> bool option
     \<Rightarrow> error + box_geometry" where
  "setFaceUV texW texH geom faceIndex ux uy uw uh mirror =
     seq (js_div ux (Number texW)) (\<lambda>u0.
     seq (js_add ux uw) (\<lambda>uxw.
     seq (js_div uxw (Number texW)) (\<lambda>u1.
     seq (js_div uy (Number texH)) (\<lambda>q.
     seq (js_sub (Number 1) q) (\<lambda>vTop.
     seq (js_add uy uh) (\<lambda>uyh.
     seq (js_div uyh (Number texH)) (\<lambda>q'.
     seq (js_sub (Number 1) q') (\<lambda>vBottom.
       let m = (case mirror of None \<Rightarrow> False | Some b \<Rightarrow> b);
           iu0 = (if m then u1 else u0);
           iu1 = (if m then u0 else u1);
           offset = faceIndex * 8;
           uvs0 = uv_array geom;
           uvs1 = store (store uvs0 (offset + 0) iu1) (offset + 1) vTop;
           uvs2 = store (store uvs1 (offset + 2) iu0) (offset + 3) vTop;
           uvs3 = store (store uvs2 (offset + 4) iu0) (offset + 5) vBottom;
           uvs4 = store (store uvs3 (offset + 6) iu1) (offset + 7) vBottom
       in Inr (geom\<lparr>uv_array := uvs4\<rparr>)))))))))"

text \<open>
  One call of \<^verbatim>\<open>setFaceUV\<close> as written in the \<^verbatim>\<open>try\<close> block: its arguments \<open>x\<close>
  and \<open>y\<close> are sums evaluated before the call.
\<close>

definition face_call ::
  "real \<Rightarrow> real \<Rightarrow> nat \<Rightarrow> (error + jsvalue) \<Rightarrow> (error + jsvalue) \<Rightarrow> real \<Rightarrow> real \<Rightarrow> bool option
     \<Rightarrow> box_geometry \<Rightarrow> error + box_geometry" where
  "face_call texW texH faceIndex x y uw uh mirror geom =
     seq x (\<lambda>ux. seq y (\<lambda>uy. setFaceUV texW texH geom faceIndex ux uy (Number uw) (Number uh) mirror))"

definition add3 :: "jsvalue \<Rightarrow> jsvalue \<Rightarrow> jsvalue \<Rightarrow> error + jsvalue" where
  "add3 a b c = seq (js_add a b) (\<lambda>ab. js_add ab c)"

definition add4 :: "jsvalue \<Rightarrow> jsvalue \<Rightarrow> jsvalue \<Rightarrow> jsvalue \<Rightarrow> error + jsvalue" where
  "add4 a b c d = seq (add3 a b c) (\<lambda>abc. js_add abc d)"

text \<open>
  The six statements of the \<^verbatim>\<open>try\<close> block, faces in the engine's order
  \<open>+X, -X, +Y, -Y, +Z, -Z\<close>, for \<open>u = uvOrigin[0]\<close>, \<open>v = uvOrigin[1]\<close>, \<open>w = sx\<close>, \<open>h = sy\<close>,
  \<open>d = sz\<close>.
\<close>

definition face_statements ::
  "real \<Rightarrow> real \<Rightarrow> json \<Rightarrow> json \<Rightarrow> real \<Rightarrow> real \<Rightarrow> real \<Rightarrow> bool option
     \<Rightarrow> (box_geometry \<Rightarrow> error + box_geometry) list" where
  "face_statements texW texH u v w h d mirror =
     [face_call texW texH 0 (add3 (Val u) (Number d) (Number w)) (js_add (Val v) (Number d)) d h mirror,
      face_call texW texH 1 (Inr (Val u)) (js_add (Val v) (Number d)) d h mirror,
      face_call texW texH 2 (js_add (Val u) (Number d)) (Inr (Val v)) w d mirror,
      face_call texW texH 3 (add3 (Val u) (Number d) (Number w)) (Inr (Val v)) w d mirror,
      face_call texW texH 4 (js_add (Val u) (Number d)) (js_add (Val v) (Number d)) w h mirror,
      face_call texW texH 5 (add4 (Val u) (Number d) (Number w) (Number d)) (js_add (Val v) (Number d)) w h mirror]"

text \<open>
  The guarded block of lines 149 to 204: entered only for an array of exactly two elements;
  the \<^verbatim>\<open>catch\<close> only logs, so the geometry continues as the \<^verbatim>\<open>try\<close> block left it.
\<close>

definition uv_attempt ::
  "real \<Rightarrow> real \<Rightarrow> cube \<Rightarrow> real \<Rightarrow> real \<Rightarrow> real \<Rightarrow> box_geometry \<Rightarrow> error option \<times> box_geometry" where
  "uv_attempt texW texH cube sx sy sz geom =
     (case cube_uv cube of
        Some (JArr [u, v]) \<Rightarrow> try_block (face_statements texW texH u v sx sy sz (cube_mirror cube)) geom
      | _ \<Rightarrow> (None, geom))"

definition apply_uv :: "real \<Rightarrow> real \<Rightarrow> cube \<Rightarrow> real \<Rightarrow> real \<Rightarrow> real \<Rightarrow> box_geometry \<Rightarrow> box_geometry" where
  "apply_uv texW texH cube sx sy sz geom = snd (uv_attempt texW texH cube sx sy sz geom)"

section \<open>One cube (lines 143 to 223)\<close>

text \<open>\<^verbatim>\<open>r[i]\<close> on an array, \<^verbatim>\<open>undefined\<close> past its end, and \<^verbatim>\<open>x || d\<close> on a number or \<^verbatim>\<open>undefined\<close>.\<close>

definition element :: "'a list \<Rightarrow> nat \<Rightarrow> 'a option" where
  "element xs i = (if i < length xs then Some (xs ! i) else None)"

definition or_number :: "real option \<Rightarrow> real \<Rightarrow> real" where
  "or_number v d = (case v of None \<Rightarrow> d | Some r \<Rightarrow> if r = 0 then d else r)"

text \<open>
  Lines 209 to 223, the same text in both source files: a cube with a pivot or a rotation
  (arrays, so truthy whenever present) gets a group at the pivot that holds the mesh.
\<close>

definition place :: "cube \<Rightarrow> mesh \<Rightarrow> vec3 \<Rightarrow> child" where
  "place cube mesh center =
     (if cube_pivot cube \<noteq> None \<or> cube_rotation cube \<noteq> None then
        let cPivot = (case cube_pivot cube of None \<Rightarrow> (0, 0, 0) | Some p \<Rightarrow> p);
            rotation =
              (case cube_rotation cube of
                 None \<Rightarrow> default_rotation
               | Some r \<Rightarrow> default_rotation
                   \<lparr>euler_x := degToRad (or_number (element r 0) 0),
                    euler_y := degToRad (or_number (element r 1) 0),
                    euler_z := degToRad (or_number (element r 2) 0)\<rparr>)
        in ChildGroup
             \<lparr>group_position = cPivot,
              group_rotation = rotation,
              group_mesh = mesh\<lparr>mesh_position :=
                (vx center - vx cPivot, vy center - vy cPivot, vz center - vz cPivot)\<rparr>\<rparr>
      else ChildMesh (mesh\<lparr>mesh_position := center\<rparr>))"

definition cube_center :: "vec3 \<Rightarrow> real \<Rightarrow> real \<Rightarrow> real \<Rightarrow> vec3" where
  "cube_center origin sx sy sz = (vx origin + sx / 2, vy origin + sy / 2, vz origin + sz / 2)"

text \<open>The body of the cube loop in src/minecraftviewer/app.js.\<close>

definition cube_object :: "real \<Rightarrow> real \<Rightarrow> cube \<Rightarrow> child" where
  "cube_object texW texH cube =
     (let origin = (case cube_origin cube of None \<Rightarrow> (0, 0, 0) | Some v \<Rightarrow> v);
          size3 = (case cube_size cube of None \<Rightarrow> (1, 1, 1) | Some v \<Rightarrow> v);
          sx = vx size3; sy = vy size3; sz = vz size3;
          geometry = apply_uv texW texH cube sx sy sz (BoxGeometry sx sy sz);
          mesh = Mesh geometry;
          center = cube_center origin sx sy sz
      in place cube mesh center)"

text \<open>The body of the cube loop in src/app.js, which has no UV block.\<close>

definition cube_object_plain :: "cube \<Rightarrow> child" where
  "cube_object_plain cube =
     (let origin = (case cube_origin cube of None \<Rightarrow> (0, 0, 0) | Some v \<Rightarrow> v);
          size3 = (case cube_size cube of None \<Rightarrow> (1, 1, 1) | Some v \<Rightarrow> v);
          sx = vx size3; sy = vy size3; sz = vz size3;
          geometry = BoxGeometry sx sy sz;
          mesh = Mesh geometry;
          center = cube_center origin sx sy sz
      in place cube mesh center)"

section \<open>Bounding boxes of the engine\<close>

text \<open>
  \<^verbatim>\<open>Box3\<close>: \<open>None\<close> is the box that \<^verbatim>\<open>makeEmpty\<close> leaves (minimum \<open>+\<infinity>\<close>, maximum
  \<open>-\<infinity>\<close>); otherwise the minimum and maximum corner.
\<close>

type_synonym box3 = "(vec3 \<times> vec3) option"

definition isEmpty :: "box3 \<Rightarrow> bool" where
  "isEmpty b = (case b of None \<Rightarrow> True
     | Some (lo, hi) \<Rightarrow> vx hi < vx lo \<or> vy hi < vy lo \<or> vz hi < vz lo)"

definition getSize :: "box3 \<Rightarrow> vec3" where
  "getSize b = (case b of None \<Rightarrow> (0, 0, 0)
     | Some (lo, hi) \<Rightarrow> if isEmpty b then (0, 0, 0) else (vx hi - vx lo, vy hi - vy lo, vz hi - vz lo))"

definition getCenter :: "box3 \<Rightarrow> vec3" where
  "getCenter b = (case b of None \<Rightarrow> (0, 0, 0)
     | Some (lo, hi) \<Rightarrow> if isEmpty b then (0, 0, 0)
         else ((vx lo + vx hi) * 0.5, (vy lo + vy hi) * 0.5, (vz lo + vz hi) * 0.5))"

definition expandByPoint :: "box3 \<Rightarrow> vec3 \<Rightarrow> box3" where
  "expandByPoint b p = (case b of None \<Rightarrow> Some (p, p)
     | Some (lo, hi) \<Rightarrow>
         Some ((min (vx lo) (vx p), min (vy lo) (vy p), min (vz lo) (vz p)),
               (max (vx hi) (vx p), max (vy hi) (vy p), max (vz hi) (vz p))))"

definition setFromPoints :: "vec3 list \<Rightarrow> box3" where
  "setFromPoints ps = foldl expandByPoint None ps"

definition union_box :: "box3 \<Rightarrow> box3 \<Rightarrow> box3" where
  "union_box a b = (case (a, b) of
       (None, _) \<Rightarrow> b
     | (_, None) \<Rightarrow> a
     | (Some (lo, hi), Some (lo', hi')) \<Rightarrow>
         Some ((min (vx lo) (vx lo'), min (vy lo) (vy lo'), min (vz lo) (vz lo')),
               (max (vx hi) (vx hi'), max (vy hi) (vy hi'), max (vz hi) (vz hi'))))"

text \<open>The eight corners of a box, and \<^verbatim>\<open>Box3.applyMatrix4\<close>, which maps them and encloses the images.\<close>

definition corners :: "vec3 \<Rightarrow> vec3 \<Rightarrow> vec3 list" where
  "corners lo hi =
     [(vx lo, vy lo, vz lo), (vx lo, vy lo, vz hi), (vx lo, vy hi, vz lo), (vx lo, vy hi, vz hi),
      (vx hi, vy lo, vz lo), (vx hi, vy lo, vz hi), (vx hi, vy hi, vz lo), (vx hi, vy hi, vz hi)]"

definition applyMatrix4 :: "box3 \<Rightarrow> (vec3 \<Rightarrow> vec3) \<Rightarrow> box3" where
  "applyMatrix4 b m = (case b of None \<Rightarrow> None
     | Some (lo, hi) \<Rightarrow> if isEmpty b then b else setFromPoints (map m (corners lo hi)))"

text \<open>
  The vertices of a \<^verbatim>\<open>BoxGeometry\<close> lie at plus and minus half of each dimension;
  \<^verbatim>\<open>computeBoundingBox\<close> encloses them.
\<close>

definition computeBoundingBox :: "box_geometry \<Rightarrow> box3" where
  "computeBoundingBox g =
     setFromPoints (corners (- (box_width g / 2), - (box_height g / 2), - (box_depth g / 2))
                            (box_width g / 2, box_height g / 2, box_depth g / 2))"

text \<open>
  Rotation of a point by an Euler rotation: the elementary rotations about the axes,
  multiplied in the order named (for \<open>XYZ\<close> the matrix is \<open>Rx Ry Rz\<close>).
\<close>

fun rot_x :: "real \<Rightarrow> vec3 \<Rightarrow> vec3" where
  "rot_x a (x, y, z) = (x, cos a * y - sin a * z, sin a * y + cos a * z)"

fun rot_y :: "real \<Rightarrow> vec3 \<Rightarrow> vec3" where
  "rot_y a (x, y, z) = (cos a * x + sin a * z, y, cos a * z - sin a * x)"

fun rot_z :: "real \<Rightarrow> vec3 \<Rightarrow> vec3" where
  "rot_z a (x, y, z) = (cos a * x - sin a * y, sin a * x + cos a * y, z)"

definition rotate :: "euler \<Rightarrow> vec3 \<Rightarrow> vec3" where
  "rotate e p =
     (let rx = rot_x (euler_x e); ry = rot_y (euler_y e); rz = rot_z (euler_z e)
      in case euler_order e of
           XYZ \<Rightarrow> rx (ry (rz p))
         | YXZ \<Rightarrow> ry (rx (rz p))
         | ZXY \<Rightarrow> rz (rx (ry p))
         | ZYX \<Rightarrow> rz (ry (rx p))
         | YZX \<Rightarrow> ry (rz (rx p))
         | XZY \<Rightarrow> rx (rz (ry p)))"

definition translate :: "vec3 \<Rightarrow> vec3 \<Rightarrow> vec3" where
  "translate t p = (vx t + vx p, vy t + vy p, vz t + vz p)"

text \<open>
  The root that collects the cubes: an \<^verbatim>\<open>Object3D\<close> with children, a position and a scale
  (its rotation is never set).
\<close>

record model_root =
  root_children :: "child list"
  root_position :: vec3
  root_scale :: vec3

definition Object3D :: model_root where
  "Object3D = \<lparr>root_children = [], root_position = (0, 0, 0), root_scale = (1, 1, 1)\<rparr>"

definition add :: "model_root \<Rightarrow> child \<Rightarrow> model_root" where
  "add modelRoot c = modelRoot\<lparr>root_children := root_children modelRoot @ [c]\<rparr>"

definition root_matrix :: "model_root \<Rightarrow> vec3 \<Rightarrow> vec3" where
  "root_matrix modelRoot p =
     translate (root_position modelRoot) (vx (root_scale modelRoot) * vx p, vy (root_scale modelRoot) * vy p, vz (root_scale modelRoot) * vz p)"

text \<open>The world matrix of the mesh of a child, and the mesh itself.\<close>

fun child_mesh :: "child \<Rightarrow> mesh" where
  "child_mesh (ChildMesh m) = m"
| "child_mesh (ChildGroup g) = group_mesh g"

fun matrixWorld :: "model_root \<Rightarrow> child \<Rightarrow> vec3 \<Rightarrow> vec3" where
  "matrixWorld modelRoot (ChildMesh m) p = root_matrix modelRoot (translate (mesh_position m) p)"
| "matrixWorld modelRoot (ChildGroup g) p =
     root_matrix modelRoot (translate (group_position g)
       (rotate (group_rotation g) (translate (mesh_position (group_mesh g)) p)))"

text \<open>
  \<^verbatim>\<open>Box3.setFromObject\<close>: starting from the empty box, the box of every mesh under the root,
  taken through the mesh's world matrix, is united in. Neither the root nor a group has a
  geometry of its own.
\<close>

definition expandByObject :: "model_root \<Rightarrow> box3 \<Rightarrow> child \<Rightarrow> box3" where
  "expandByObject modelRoot b c =
     union_box b (applyMatrix4 (computeBoundingBox (mesh_geometry (child_mesh c))) (matrixWorld modelRoot c))"

definition setFromObject :: "model_root \<Rightarrow> box3" where
  "setFromObject modelRoot = foldl (expandByObject modelRoot) None (root_children modelRoot)"

section \<open>Building the root from the bones (lines 109 to 225)\<close>

text \<open>
  \<^verbatim>\<open>Map.set\<close>: a key that is already present keeps its place and takes the new value; a new
  key goes to the end. The key of a bone without a name is \<^verbatim>\<open>undefined\<close>, here \<open>None\<close>.
\<close>

fun map_set :: "('k \<times> 'v) list \<Rightarrow> 'k \<Rightarrow> 'v \<Rightarrow> ('k \<times> 'v) list" where
  "map_set [] k v = [(k, v)]"
| "map_set ((k', v') # m) k v = (if k' = k then (k', v) # m else (k', v') # map_set m k v)"

text \<open>
  The first loop fills the map of bones. The \<^verbatim>\<open>Object3D\<close> it makes for each bone, and the
  parent links that the second loop sets between these objects, are never added to the
  root or to the scene and no later line reads them; the model keeps the bone definitions.
\<close>

definition bones_map :: "bone list \<Rightarrow> (string option \<times> bone) list" where
  "bones_map bs = foldl (\<lambda>bones b. map_set bones (bone_name b) b) [] bs"

definition texture_size :: "geometry \<Rightarrow> real \<times> real" where
  "texture_size geom =
     (let desc = (case geo_description geom of
                    None \<Rightarrow> \<lparr>texture_width = None, texture_height = None\<rparr>
                  | Some d \<Rightarrow> d);
          texW = or_number (texture_width desc) 64;
          texH = or_number (texture_height desc) 64
      in (texW, texH))"

definition geometry_bones :: "geometry \<Rightarrow> (string option \<times> bone) list" where
  "geometry_bones geom = bones_map (case geo_bones geom of None \<Rightarrow> [] | Some bs \<Rightarrow> bs)"

text \<open>The builder loop of src/minecraftviewer/app.js: bones in map order, a bone without cubes is skipped.\<close>

definition add_cubes :: "real \<Rightarrow> real \<Rightarrow> model_root \<Rightarrow> cube list \<Rightarrow> model_root" where
  "add_cubes texW texH simpleRoot cs = foldl (\<lambda>r c. add r (cube_object texW texH c)) simpleRoot cs"

definition add_bone :: "real \<Rightarrow> real \<Rightarrow> model_root \<Rightarrow> string option \<times> bone \<Rightarrow> model_root" where
  "add_bone texW texH simpleRoot entry =
     (case bone_cubes (snd entry) of
        None \<Rightarrow> simpleRoot
      | Some cs \<Rightarrow> add_cubes texW texH simpleRoot cs)"

definition build_model :: "geometry \<Rightarrow> model_root" where
  "build_model geom =
     (let (texW, texH) = texture_size geom
      in foldl (add_bone texW texH) Object3D (geometry_bones geom))"

text \<open>The builder loop of src/app.js.\<close>

definition add_cubes_plain :: "model_root \<Rightarrow> cube list \<Rightarrow> model_root" where
  "add_cubes_plain simpleRoot cs = foldl (\<lambda>r c. add r (cube_object_plain c)) simpleRoot cs"

definition add_bone_plain :: "model_root \<Rightarrow> string option \<times> bone \<Rightarrow> model_root" where
  "add_bone_plain simpleRoot entry =
     (case bone_cubes (snd entry) of
        None \<Rightarrow> simpleRoot
      | Some cs \<Rightarrow> add_cubes_plain simpleRoot cs)"

definition build_model_plain :: "geometry \<Rightarrow> model_root" where
  "build_model_plain geom = foldl add_bone_plain Object3D (geometry_bones geom)"

section \<open>Centering, scaling and camera framing (lines 227 to 263)\<close>

text \<open>
  What \<^verbatim>\<open>loadModel\<close> changes of the globals \<^verbatim>\<open>scene\<close>, \<^verbatim>\<open>camera\<close> and \<^verbatim>\<open>controls\<close>. Of the
  scene only the roots that \<^verbatim>\<open>loadModel\<close> adds are kept (lights, grid and axes are added by
  \<^verbatim>\<open>bootstrap\<close> and never touched again). The status text with the cube count and the
  elapsed time is left out, and so is what \<^verbatim>\<open>controls.update()\<close> and
  \<^verbatim>\<open>camera.updateProjectionMatrix()\<close> derive inside the engine from the fields kept here.
\<close>

record viewer =
  scene :: "model_root list"
  camera_position :: vec3
  camera_near :: real
  camera_far :: real
  controls_target :: vec3

text \<open>The globals as \<^verbatim>\<open>bootstrap\<close> leaves them before it calls \<^verbatim>\<open>loadModel\<close>.\<close>

definition bootstrap_viewer :: viewer where
  "bootstrap_viewer =
     \<lparr>scene = [], camera_position = (80, 60, 120), camera_near = 0.1, camera_far = 5000,
      controls_target = (0, 18, 0)\<rparr>"

definition maxDimension :: "vec3 \<Rightarrow> real" where
  "maxDimension v = max (vx v) (max (vy v) (vz v))"

definition normalize :: "model_root \<Rightarrow> box3 \<Rightarrow> model_root" where
  "normalize modelRoot box =
     (let bsize = getSize box;
          center = getCenter box;
          moved = modelRoot\<lparr>root_position :=
                    (vx (root_position modelRoot) - vx center,
                     vy (root_position modelRoot) - vy center,
                     vz (root_position modelRoot) - vz center)\<rparr>;
          maxDim = maxDimension bsize
      in if maxDim > 0 then (let desired = 60; s = desired / maxDim in moved\<lparr>root_scale := (s, s, s)\<rparr>)
         else moved)"

definition frame_model :: "model_root \<Rightarrow> viewer \<Rightarrow> viewer" where
  "frame_model modelRoot st =
     (let box = setFromObject modelRoot
      in if \<not> isEmpty box then
           let bsize = getSize box;
               dist = 2 * maxDimension bsize
           in st\<lparr>scene := scene st @ [normalize modelRoot box],
                 controls_target := (0, 0, 0),
                 camera_position := (dist * 0.8, dist * 0.6, dist * 1.2),
                 camera_near := 0.1,
                 camera_far := dist * 10 + 100\<rparr>
         else st\<lparr>scene := scene st @ [modelRoot]\<rparr>)"

section \<open>Reading the geometry entry (lines 95 and 107 to 109)\<close>

text \<open>
  A property read \<^verbatim>\<open>v[k]\<close> for the keys that \<^verbatim>\<open>loadModel\<close> uses: the index \<^verbatim>\<open>0\<close> and names
  that no prototype defines. On \<^verbatim>\<open>undefined\<close> and \<^verbatim>\<open>null\<close> it raises a TypeError; on a
  number or boolean it gives \<^verbatim>\<open>undefined\<close>; a string has its first character at index 0.
\<close>

definition own :: "json \<Rightarrow> string \<Rightarrow> json option" where
  "own j k = (case j of JObj kvs \<Rightarrow> map_of (rev kvs) k | _ \<Rightarrow> None)"

fun property :: "json option \<Rightarrow> string \<Rightarrow> error + json option" where
  "property None k = Inl TypeError"
| "property (Some JNull) k = Inl TypeError"
| "property (Some (JArr xs)) k =
     Inr (if k = ''0'' then (case xs of [] \<Rightarrow> None | x # _ \<Rightarrow> Some x) else None)"
| "property (Some (JStr s)) k =
     Inr (if k = ''0'' then (case s of [] \<Rightarrow> None | c # _ \<Rightarrow> Some (JStr [c])) else None)"
| "property (Some j) k = Inr (own j k)"

text \<open>
  \<^verbatim>\<open>const geom = geoJson['minecraft:geometry'][0]\<close> and the read \<^verbatim>\<open>geom.description\<close> of the
  next line, which raises when \<open>geom\<close> is \<^verbatim>\<open>undefined\<close> or \<^verbatim>\<open>null\<close>.
\<close>

definition geometry_entry :: "json \<Rightarrow> error + json" where
  "geometry_entry geoJson =
     seq (property (Some geoJson) ''minecraft:geometry'') (\<lambda>field.
     seq (property field ''0'') (\<lambda>geom.
     seq (property geom ''description'') (\<lambda>d.
       case geom of None \<Rightarrow> Inl TypeError | Some g \<Rightarrow> Inr g)))"


section \<open>The documented input format\<close>

text \<open>
  From the geometry entry on, the model follows the program on inputs of the documented
  format: each field absent or of its documented type (vectors are arrays of three
  numbers, \<^verbatim>\<open>rotation\<close> an array of numbers, \<^verbatim>\<open>bones\<close> and \<^verbatim>\<open>cubes\<close> arrays); \<^verbatim>\<open>uv\<close> may be any
  value. The functions below read an input of this format into the records of the first
  section and give \<open>None\<close> on any other. A number, boolean, string or array in the place
  of an object has none of the fields, as a property read on it gives \<^verbatim>\<open>undefined\<close>.
\<close>

fun as_number :: "json \<Rightarrow> real option" where
  "as_number (JNum r) = Some r"
| "as_number _ = None"

fun as_boolean :: "json \<Rightarrow> bool option" where
  "as_boolean (JBool b) = Some b"
| "as_boolean _ = None"

fun as_string :: "json \<Rightarrow> string option" where
  "as_string (JStr s) = Some s"
| "as_string _ = None"

fun as_list :: "(json \<Rightarrow> 'a option) \<Rightarrow> json \<Rightarrow> 'a list option" where
  "as_list dec (JArr xs) = those (map dec xs)"
| "as_list dec _ = None"

definition as_vec3 :: "json \<Rightarrow> vec3 option" where
  "as_vec3 j = (case as_list as_number j of Some [x, y, z] \<Rightarrow> Some (x, y, z) | _ \<Rightarrow> None)"

definition optional :: "(json \<Rightarrow> 'a option) \<Rightarrow> json option \<Rightarrow> 'a option option" where
  "optional dec v = (case v of None \<Rightarrow> Some None | Some j \<Rightarrow> map_option Some (dec j))"

definition as_cube :: "json \<Rightarrow> cube option" where
  "as_cube j = (if j = JNull then None else do {
     origin \<leftarrow> optional as_vec3 (own j ''origin'');
     size \<leftarrow> optional as_vec3 (own j ''size'');
     pivot \<leftarrow> optional as_vec3 (own j ''pivot'');
     rotation \<leftarrow> optional (as_list as_number) (own j ''rotation'');
     mirror \<leftarrow> optional as_boolean (own j ''mirror'');
     Some \<lparr>cube_origin = origin, cube_size = size, cube_pivot = pivot, cube_rotation = rotation,
           cube_uv = own j ''uv'', cube_mirror = mirror\<rparr> })"

definition as_bone :: "json \<Rightarrow> bone option" where
  "as_bone j = (if j = JNull then None else do {
     name \<leftarrow> optional as_string (own j ''name'');
     parent \<leftarrow> optional as_string (own j ''parent'');
     pivot \<leftarrow> optional as_vec3 (own j ''pivot'');
     cubes \<leftarrow> optional (as_list as_cube) (own j ''cubes'');
     Some \<lparr>bone_name = name, bone_parent = parent, bone_pivot = pivot, bone_cubes = cubes\<rparr> })"

definition as_description :: "json \<Rightarrow> description option" where
  "as_description j = (if j = JNull then None else do {
     w \<leftarrow> optional as_number (own j ''texture_width'');
     h \<leftarrow> optional as_number (own j ''texture_height'');
     Some \<lparr>texture_width = w, texture_height = h\<rparr> })"

definition as_geometry :: "json \<Rightarrow> geometry option" where
  "as_geometry j = (if j = JNull then None else do {
     desc \<leftarrow> optional as_description (own j ''description'');
     bones \<leftarrow> optional (as_list as_bone) (own j ''bones'');
     Some \<lparr>geo_description = desc, geo_bones = bones\<rparr> })"

section \<open>loadModel\<close>

text \<open>
  The two responses and the parsed body of the second. A rejected fetch, an image that
  fails to decode and a body that is not JSON end the load before line 107 and are not
  modelled.
\<close>

record responses =
  texResp_ok :: bool
  geoResp_ok :: bool
  geoJson :: json

text \<open>
  \<open>Loaded\<close>: the globals after a load that returned. \<open>Failed\<close>: the error the load raised
  to its caller. \<open>Unsupported\<close>: the input is not of the documented format and the model
  does not say what the program does.
\<close>

datatype outcome = Loaded viewer | Failed error | Unsupported

definition loadModel :: "responses \<Rightarrow> viewer \<Rightarrow> outcome" where
  "loadModel resp st =
     (if \<not> texResp_ok resp \<or> \<not> geoResp_ok resp then Failed MissingFiles
      else case geometry_entry (geoJson resp) of
             Inl e \<Rightarrow> Failed e
           | Inr g \<Rightarrow>
               (case as_geometry g of
                  None \<Rightarrow> Unsupported
                | Some geom \<Rightarrow> Loaded (frame_model (build_model geom) st)))"

text \<open>\<^verbatim>\<open>loadModel\<close> of src/app.js.\<close>

definition loadModel_plain :: "responses \<Rightarrow> viewer \<Rightarrow> outcome" where
  "loadModel_plain resp st =
     (if \<not> texResp_ok resp \<or> \<not> geoResp_ok resp then Failed MissingFiles
      else case geometry_entry (geoJson resp) of
             Inl e \<Rightarrow> Failed e
           | Inr g \<Rightarrow>
               (case as_geometry g of
                  None \<Rightarrow> Unsupported
                | Some geom \<Rightarrow> Loaded (frame_model (build_model_plain geom) st)))"

section \<open>The cube net of the specification\<close>

text \<open>
  The six rectangles of the specification (texel corner \<open>x\<close>, \<open>y\<close>, width, height), in
  the order \<open>+X, -X, +Y, -Y, +Z, -Z\<close>, and the specification's conversion of a rectangle
  to a range of U and a range of V.
\<close>

definition net_rectangles :: "real \<Rightarrow> real \<Rightarrow> real \<Rightarrow> real \<Rightarrow> real \<Rightarrow> (real \<times> real \<times> real \<times> real) list" where
  "net_rectangles u v w h d =
     [(u + d + w, v + d, d, h),
      (u, v + d, d, h),
      (u + d, v, w, d),
      (u + d + w, v, w, d),
      (u + d, v + d, w, h),
      (u + d + w + d, v + d, w, h)]"

definition u_range :: "real \<Rightarrow> real \<times> real \<times> real \<times> real \<Rightarrow> real \<times> real" where
  "u_range texW r = (case r of (x, y, rw, rh) \<Rightarrow> (x / texW, (x + rw) / texW))"

definition v_range :: "real \<Rightarrow> real \<times> real \<times> real \<times> real \<Rightarrow> real \<times> real" where
  "v_range texH r = (case r of (x, y, rw, rh) \<Rightarrow> (1 - (y + rh) / texH, 1 - y / texH))"

text \<open>
  The eight entries of a face whose rectangle has the U range \<open>us\<close> and the V range
  \<open>vs\<close>: the vertices take the corners right-top, left-top, left-bottom, right-bottom,
  with left and right exchanged under \<open>m\<close>.
\<close>

definition face_corners :: "bool \<Rightarrow> real \<times> real \<Rightarrow> real \<times> real \<Rightarrow> real option list" where
  "face_corners m us vs =
     (case (us, vs) of ((ulo, uhi), (vlo, vhi)) \<Rightarrow>
        map Some (if m then [ulo, vhi, uhi, vhi, uhi, vlo, ulo, vlo]
                  else [uhi, vhi, ulo, vhi, ulo, vlo, uhi, vlo]))"

definition mirrored :: "cube \<Rightarrow> bool" where
  "mirrored c = (case cube_mirror c of None \<Rightarrow> False | Some b \<Rightarrow> b)"

section \<open>Reading the result\<close>

text \<open>
  The eight entries that face \<open>f\<close> occupies in a UV array; the U and the V of its vertex
  \<open>k\<close>; the vertex that shares the horizontal edge of its face with vertex \<open>k\<close>; the
  UV array of the mesh that a cube produces.
\<close>

definition face_block :: "real option list \<Rightarrow> nat \<Rightarrow> real option list" where
  "face_block uvs f = take 8 (drop (8 * f) uvs)"

definition face_u :: "real option list \<Rightarrow> nat \<Rightarrow> nat \<Rightarrow> real option" where
  "face_u uvs f k = face_block uvs f ! (2 * k)"

definition face_v :: "real option list \<Rightarrow> nat \<Rightarrow> nat \<Rightarrow> real option" where
  "face_v uvs f k = face_block uvs f ! (2 * k + 1)"

definition opposite :: "nat \<Rightarrow> nat" where
  "opposite k = (if even k then k + 1 else k - 1)"

definition cube_uvs :: "real \<Rightarrow> real \<Rightarrow> cube \<Rightarrow> real option list" where
  "cube_uvs texW texH c = uv_array (mesh_geometry (child_mesh (cube_object texW texH c)))"

text \<open>The error that the \<^verbatim>\<open>catch\<close> clause receives while a cube is processed, if any.\<close>

definition uv_error :: "real \<Rightarrow> real \<Rightarrow> cube \<Rightarrow> error option" where
  "uv_error texW texH cube =
     (let size3 = (case cube_size cube of None \<Rightarrow> (1, 1, 1) | Some v \<Rightarrow> v);
          sx = vx size3; sy = vy size3; sz = vz size3
      in fst (uv_attempt texW texH cube sx sy sz (BoxGeometry sx sy sz)))"

text \<open>
  Where the mesh of a child sits in the frame of the root when the rotation of its group
  is left aside: the position of the mesh, moved by the position of the group.
\<close>

definition center_of :: "child \<Rightarrow> vec3" where
  "center_of ch = (case ch of
       ChildMesh m \<Rightarrow> mesh_position m
     | ChildGroup g \<Rightarrow> translate (group_position g) (mesh_position (group_mesh g)))"

text \<open>Replacing the eight entries of face \<open>f\<close>; a list of blocks of eight entries.\<close>

definition write_face :: "real option list \<Rightarrow> nat \<Rightarrow> real option list \<Rightarrow> real option list" where
  "write_face uvs f vals = take (8 * f) uvs @ vals @ drop (8 * f + 8) uvs"

definition blocks :: "real option list list \<Rightarrow> bool" where
  "blocks bs = (\<forall>b \<in> set bs. length b = 8)"

section \<open>Forgetting texture coordinates\<close>

text \<open>
  The same objects with every UV array set back to the engine's default: what is left of
  a result when texture coordinates are disregarded.
\<close>

definition plain_mesh :: "mesh \<Rightarrow> mesh" where
  "plain_mesh m = m\<lparr>mesh_geometry := (mesh_geometry m)\<lparr>uv_array := default_uvs\<rparr>\<rparr>"

fun plain_child :: "child \<Rightarrow> child" where
  "plain_child (ChildMesh m) = ChildMesh (plain_mesh m)"
| "plain_child (ChildGroup g) = ChildGroup (g\<lparr>group_mesh := plain_mesh (group_mesh g)\<rparr>)"

definition plain_root :: "model_root \<Rightarrow> model_root" where
  "plain_root r = r\<lparr>root_children := map plain_child (root_children r)\<rparr>"

definition plain_viewer :: "viewer \<Rightarrow> viewer" where
  "plain_viewer st = st\<lparr>scene := map plain_root (scene st)\<rparr>"

fun plain_outcome :: "outcome \<Rightarrow> outcome" where
  "plain_outcome (Loaded st) = Loaded (plain_viewer st)"
| "plain_outcome (Failed e) = Failed e"
| "plain_outcome Unsupported = Unsupported"

section \<open>Example inputs\<close>

text \<open>
  The cubes of the end-to-end scenarios of the specification: scenario 1, a cube with
  origin and size only; scenario 2, a unit cube with \<open>uv = [0, 0]\<close> on a texture of
  \<open>64 x 64\<close>; scenario 3, a cube turned about its pivot.
\<close>

definition scenario1_cube :: cube where
  "scenario1_cube =
     \<lparr>cube_origin = Some (0, 0, 0), cube_size = Some (2, 2, 2), cube_pivot = None,
      cube_rotation = None, cube_uv = None, cube_mirror = None\<rparr>"

definition scenario2_cube :: cube where
  "scenario2_cube =
     \<lparr>cube_origin = None, cube_size = Some (1, 1, 1), cube_pivot = None, cube_rotation = None,
      cube_uv = Some (JArr [JNum 0, JNum 0]), cube_mirror = Some False\<rparr>"

definition geometry64 :: geometry where
  "geometry64 =
     \<lparr>geo_description = Some \<lparr>texture_width = Some 64, texture_height = Some 64\<rparr>,
      geo_bones = None\<rparr>"

definition scenario3_cube :: cube where
  "scenario3_cube =
     \<lparr>cube_origin = Some (0, 0, 0), cube_size = Some (2, 2, 2), cube_pivot = Some (1, 1, 1),
      cube_rotation = Some [0, 90, 0], cube_uv = None, cube_mirror = None\<rparr>"

text \<open>
  A cube of size zero, and a cube whose first \<open>uv\<close> element cannot be converted to a
  primitive.
\<close>

definition point_cube :: cube where
  "point_cube =
     \<lparr>cube_origin = Some (3, 4, 5), cube_size = Some (0, 0, 0), cube_pivot = None,
      cube_rotation = None, cube_uv = None, cube_mirror = None\<rparr>"

definition failing_cube :: cube where
  "failing_cube =
     \<lparr>cube_origin = Some (0, 0, 0), cube_size = Some (2, 2, 2), cube_pivot = None,
      cube_rotation = None,
      cube_uv = Some (JArr [JObj [(''toString'', JNum 0)], JNum 0]), cube_mirror = None\<rparr>"

text \<open>Cubes whose widest side is the width, the height and the depth in turn.\<close>

definition wide_cube :: cube where
  "wide_cube =
     \<lparr>cube_origin = Some (0, 0, 0), cube_size = Some (6, 2, 3), cube_pivot = None,
      cube_rotation = None, cube_uv = None, cube_mirror = None\<rparr>"

definition tall_cube :: cube where
  "tall_cube =
     \<lparr>cube_origin = Some (0, 0, 0), cube_size = Some (2, 4, 2), cube_pivot = None,
      cube_rotation = None, cube_uv = None, cube_mirror = None\<rparr>"

definition deep_cube :: cube where
  "deep_cube =
     \<lparr>cube_origin = Some (0, 0, 0), cube_size = Some (1, 2, 5), cube_pivot = None,
      cube_rotation = None, cube_uv = None, cube_mirror = None\<rparr>"

text \<open>
  Both files fetched; a file whose geometry field is a string; a file with one bone of two
  cubes, and its two cubes and its geometry entry as records.
\<close>

definition fetched :: "json \<Rightarrow> responses" where
  "fetched j = \<lparr>texResp_ok = True, geoResp_ok = True, geoJson = j\<rparr>"


definition two_cube_file :: json where
  "two_cube_file =
     JObj [(''format_version'', JStr ''1.12.0''),
           (''minecraft:geometry'',
            JArr [JObj [(''description'', JObj [(''texture_width'', JNum 64), (''texture_height'', JNum 64)]),
                        (''bones'',
                         JArr [JObj [(''name'', JStr ''body''),
                                     (''pivot'', JArr [JNum 0, JNum 0, JNum 0]),
                                     (''cubes'',
                                      JArr [JObj [(''origin'', JArr [JNum 0, JNum 0, JNum 0]),
                                                  (''size'', JArr [JNum 2, JNum 2, JNum 2]),
                                                  (''uv'', JArr [JNum 0, JNum 0])],
                                            JObj [(''origin'', JArr [JNum 2, JNum 0, JNum 0]),
                                                  (''size'', JArr [JNum 2, JNum 4, JNum 2])]])]])]])]"

definition first_cube :: cube where
  "first_cube =
     \<lparr>cube_origin = Some (0, 0, 0), cube_size = Some (2, 2, 2), cube_pivot = None,
      cube_rotation = None, cube_uv = Some (JArr [JNum 0, JNum 0]), cube_mirror = None\<rparr>"

definition second_cube :: cube where
  "second_cube =
     \<lparr>cube_origin = Some (2, 0, 0), cube_size = Some (2, 4, 2), cube_pivot = None,
      cube_rotation = None, cube_uv = None, cube_mirror = None\<rparr>"

definition two_cube_geometry :: geometry where
  "two_cube_geometry =
     \<lparr>geo_description = Some \<lparr>texture_width = Some 64, texture_height = Some 64\<rparr>,
      geo_bones = Some [\<lparr>bone_name = Some ''body'', bone_parent = None, bone_pivot = Some (0, 0, 0),
                         bone_cubes = Some [first_cube, second_cube]\<rparr>]\<rparr>"

section \<open>Properties\<close>

lemma js_numbers [simp]:
  "js_add (Number a) (Number b) = Inr (Number (a + b))"
  "js_sub (Number a) (Number b) = Inr (Number (a - b))"
  "b \<noteq> 0 \<Longrightarrow> js_div (Number a) (Number b) = Inr (Number (a / b))"
  by (simp_all add: js_add_def js_sub_def js_div_def js_binop_def)

lemma seq_Inr [simp]: "seq (Inr a) f = f a"
  by (simp add: seq_def)

lemma seq_Inl [simp]: "seq (Inl e) f = Inl e"
  by (simp add: seq_def)

lemma setFaceUV_numbers:
  assumes "texW \<noteq> 0" "texH \<noteq> 0"
  shows "setFaceUV texW texH g f (Number ux) (Number uy) (Number uw) (Number uh) m =
    Inr (g\<lparr>uv_array :=
      (let mm = (case m of None \<Rightarrow> False | Some b \<Rightarrow> b);
           u0 = ux / texW; u1 = (ux + uw) / texW; vt = 1 - uy / texH; vb = 1 - (uy + uh) / texH;
           i0 = (if mm then u1 else u0); i1 = (if mm then u0 else u1);
           k = f * 8
       in store (store (store (store (store (store (store (store (uv_array g) (k + 0) (Number i1)) (k + 1) (Number vt))
            (k + 2) (Number i0)) (k + 3) (Number vt)) (k + 4) (Number i0)) (k + 5) (Number vb)) (k + 6) (Number i1)) (k + 7) (Number vb))\<rparr>)"
  using assms by (simp add: setFaceUV_def Let_def)


lemma length8:
  assumes "length xs = 8"
  obtains b0 b1 b2 b3 b4 b5 b6 b7 where "xs = [b0, b1, b2, b3, b4, b5, b6, b7]"
  using assms by (auto simp: eval_nat_numeral length_Suc_conv)

lemma write_face_store:
  assumes "8 * f + 8 \<le> length uvs"
  shows "store (store (store (store (store (store (store (store uvs (f * 8 + 0) (Number a0)) (f * 8 + 1) (Number a1))
            (f * 8 + 2) (Number a2)) (f * 8 + 3) (Number a3)) (f * 8 + 4) (Number a4)) (f * 8 + 5) (Number a5)) (f * 8 + 6) (Number a6)) (f * 8 + 7) (Number a7)
     = write_face uvs f (map Some [a0, a1, a2, a3, a4, a5, a6, a7])"
proof -
  define A where "A = take (8 * f) uvs"
  define B where "B = drop (8 * f + 8) uvs"
  have lenA: "length A = f * 8" using assms by (simp add: A_def)
  have "length (take 8 (drop (8 * f) uvs)) = 8" using assms by simp
  then obtain b0 b1 b2 b3 b4 b5 b6 b7
    where mid: "take 8 (drop (8 * f) uvs) = [b0, b1, b2, b3, b4, b5, b6, b7]"
    by (rule length8)
  have "drop (8 * f) uvs = take 8 (drop (8 * f) uvs) @ drop 8 (drop (8 * f) uvs)"
    by (rule append_take_drop_id [symmetric])
  moreover have "drop 8 (drop (8 * f) uvs) = B"
    by (simp add: B_def add.commute)
  moreover have "uvs = A @ drop (8 * f) uvs"
    by (simp add: A_def)
  ultimately have split: "uvs = A @ [b0, b1, b2, b3, b4, b5, b6, b7] @ B"
    using mid by simp
  have "write_face uvs f (map Some [a0, a1, a2, a3, a4, a5, a6, a7])
      = A @ [Some a0, Some a1, Some a2, Some a3, Some a4, Some a5, Some a6, Some a7] @ B"
    by (simp add: write_face_def A_def B_def)
  moreover have "store (store (store (store (store (store (store (store (A @ [b0, b1, b2, b3, b4, b5, b6, b7] @ B) (f * 8 + 0) (Number a0)) (f * 8 + 1) (Number a1))
            (f * 8 + 2) (Number a2)) (f * 8 + 3) (Number a3)) (f * 8 + 4) (Number a4)) (f * 8 + 5) (Number a5)) (f * 8 + 6) (Number a6)) (f * 8 + 7) (Number a7)
      = A @ [Some a0, Some a1, Some a2, Some a3, Some a4, Some a5, Some a6, Some a7] @ B"
    using lenA by (simp add: store_def list_update_append)
  ultimately show ?thesis using split by simp
qed

lemma setFaceUV_write:
  assumes "texW \<noteq> 0" "texH \<noteq> 0" and len: "8 * f + 8 \<le> length (uv_array g)"
  shows "setFaceUV texW texH g f (Number ux) (Number uy) (Number uw) (Number uh) m =
    Inr (g\<lparr>uv_array := write_face (uv_array g) f
      (face_corners (case m of None \<Rightarrow> False | Some b \<Rightarrow> b)
         (u_range texW (ux, uy, uw, uh)) (v_range texH (ux, uy, uw, uh)))\<rparr>)"
  unfolding setFaceUV_numbers[OF assms(1,2)] Let_def write_face_store[OF len]
  by (simp add: face_corners_def u_range_def v_range_def)


lemma length_face_corners [simp]: "length (face_corners m us vs) = 8"
  by (cases us; cases vs) (simp add: face_corners_def)

lemma length_concat_blocks:
  "\<forall>b \<in> set bs. length b = 8 \<Longrightarrow> length (concat bs) = 8 * length bs"
  by (induction bs) auto

lemma blocks_update: "blocks bs \<Longrightarrow> length new = 8 \<Longrightarrow> blocks (bs[f := new])"
  unfolding blocks_def using set_update_subset_insert[of bs f new] by auto

lemma write_face_concat:
  assumes "blocks bs" "f < length bs" "length new = 8"
  shows "write_face (concat bs) f new = concat (bs[f := new])"
  using assms
proof (induction bs arbitrary: f)
  case Nil
  then show ?case by simp
next
  case (Cons b bs)
  show ?case
  proof (cases f)
    case 0
    then show ?thesis using Cons.prems by (simp add: write_face_def blocks_def)
  next
    case (Suc k)
    have "write_face (concat bs) k new = concat (bs[k := new])"
      using Cons.IH[of k] Cons.prems Suc by (simp add: blocks_def)
    then show ?thesis using Cons.prems Suc by (simp add: write_face_def blocks_def add.commute)
  qed
qed

lemma face_call_concat:
  assumes "texW \<noteq> 0" "texH \<noteq> 0" "blocks bs" "f < length bs"
  shows "face_call texW texH f (Inr (Number x)) (Inr (Number y)) uw uh m (g\<lparr>uv_array := concat bs\<rparr>) =
     Inr (g\<lparr>uv_array := concat (bs[f := face_corners (case m of None \<Rightarrow> False | Some b \<Rightarrow> b)
         (u_range texW (x, y, uw, uh)) (v_range texH (x, y, uw, uh))])\<rparr>)"
proof -
  have "8 * f + 8 \<le> length (uv_array (g\<lparr>uv_array := concat bs\<rparr>))"
    using assms(3,4) by (simp add: length_concat_blocks blocks_def)
  then show ?thesis
    using assms by (simp add: face_call_def setFaceUV_write write_face_concat)
qed

lemma uv_attempt_numbers:
  assumes "texW \<noteq> 0" "texH \<noteq> 0" "cube_uv c = Some (JArr [JNum u, JNum v])"
  shows "uv_attempt texW texH c w h d (BoxGeometry w h d) =
    (None, (BoxGeometry w h d)\<lparr>uv_array :=
       concat (map (\<lambda>r. face_corners (mirrored c) (u_range texW r) (v_range texH r)) (net_rectangles u v w h d))\<rparr>)"
proof -
  define blk :: "real option list" where "blk = [Some 0, Some 1, Some 1, Some 1, Some 0, Some 0, Some 1, Some 0]"
  define bs where "bs = [blk, blk, blk, blk, blk, blk]"
  define g where "g = BoxGeometry w h d"
  have bs: "blocks bs" "length bs = 6" by (simp_all add: bs_def blk_def blocks_def)
  have g: "g\<lparr>uv_array := concat bs\<rparr> = g"
    by (simp add: g_def BoxGeometry_def default_uvs_def blk_def bs_def eval_nat_numeral)
  have "uv_attempt texW texH c w h d (g\<lparr>uv_array := concat bs\<rparr>) =
    (None, g\<lparr>uv_array := concat (bs
       [0 := face_corners (mirrored c) (u_range texW (u + d + w, v + d, d, h)) (v_range texH (u + d + w, v + d, d, h)),
        1 := face_corners (mirrored c) (u_range texW (u, v + d, d, h)) (v_range texH (u, v + d, d, h)),
        2 := face_corners (mirrored c) (u_range texW (u + d, v, w, d)) (v_range texH (u + d, v, w, d)),
        3 := face_corners (mirrored c) (u_range texW (u + d + w, v, w, d)) (v_range texH (u + d + w, v, w, d)),
        4 := face_corners (mirrored c) (u_range texW (u + d, v + d, w, h)) (v_range texH (u + d, v + d, w, h)),
        5 := face_corners (mirrored c) (u_range texW (u + d + w + d, v + d, w, h)) (v_range texH (u + d + w + d, v + d, w, h))])\<rparr>)"
    using assms bs
    by (simp add: uv_attempt_def face_statements_def add3_def add4_def face_call_concat
        blocks_update mirrored_def)
  then show ?thesis
    unfolding g by (simp add: g_def bs_def net_rectangles_def)
qed


lemma or_number_nonzero: "d \<noteq> 0 \<Longrightarrow> or_number v d \<noteq> 0"
  by (simp add: or_number_def split: option.split)

lemma texture_size_nonzero:
  assumes "texture_size geom = (texW, texH)"
  shows "texW \<noteq> 0" and "texH \<noteq> 0"
  using assms or_number_nonzero[of 64] by (auto simp: texture_size_def Let_def)

lemma child_mesh_place_geometry [simp]:
  "mesh_geometry (child_mesh (place c m center)) = mesh_geometry m"
  by (simp add: place_def Let_def)

lemma cube_uvs_apply:
  "cube_uvs texW texH c =
     (case (case cube_size c of None \<Rightarrow> (1, 1, 1) | Some s \<Rightarrow> s) of
        (w, h, d) \<Rightarrow> uv_array (apply_uv texW texH c w h d (BoxGeometry w h d)))"
  by (simp add: cube_uvs_def cube_object_def Let_def Mesh_def split: prod.split)

lemma cube_uvs_numbers:
  assumes "texW \<noteq> 0" "texH \<noteq> 0"
      and "cube_uv c = Some (JArr [JNum u, JNum v])"
      and "(case cube_size c of None \<Rightarrow> (1, 1, 1) | Some s \<Rightarrow> s) = (w, h, d)"
  shows "cube_uvs texW texH c =
     concat (map (\<lambda>r. face_corners (mirrored c) (u_range texW r) (v_range texH r))
                 (net_rectangles u v w h d))"
  using assms by (simp add: cube_uvs_apply apply_uv_def uv_attempt_numbers)

text \<open>
  C1. For a cube whose \<open>uv\<close> is a pair of numbers \<open>(u, v)\<close>, with size \<open>(w, h, d)\<close>
  (or the default \<open>(1, 1, 1)\<close>) and the texture dimensions \<open>texW\<close>, \<open>texH\<close> that the
  geometry declares (or the default 64), the UV array of the mesh consists, face by face in
  the order \<open>+X, -X, +Y, -Y, +Z, -Z\<close>, of the corners of the cube-net rectangles of the
  specification, each taken to the U range \<open>[x / texW, (x + rw) / texW]\<close> and the V range
  \<open>[1 - (y + rh) / texH, 1 - y / texH]\<close>. The witness is scenario 2: \<open>uv = [0, 0]\<close>,
  size \<open>[1, 1, 1]\<close>, texture \<open>64 x 64\<close>, no mirror; the \<open>+Z\<close> face has the U range
  \<open>[1/64, 2/64]\<close> and the V range \<open>[62/64, 63/64]\<close>.
\<close>

theorem bedrock_net_face_uvs:
  assumes "texture_size geom = (texW, texH)"
      and "cube_uv c = Some (JArr [JNum u, JNum v])"
      and "(case cube_size c of None \<Rightarrow> (1, 1, 1) | Some s \<Rightarrow> s) = (w, h, d)"
  shows "cube_uvs texW texH c =
     concat (map (\<lambda>r. face_corners (mirrored c) (u_range texW r) (v_range texH r))
                 (net_rectangles u v w h d))"
  using texture_size_nonzero[OF assms(1)] assms(2,3) by (rule cube_uvs_numbers)

theorem bedrock_net_face_uvs_witness:
  "texture_size geometry64 = (64, 64)
   \<and> cube_uv scenario2_cube = Some (JArr [JNum 0, JNum 0])
   \<and> (case cube_size scenario2_cube of None \<Rightarrow> (1, 1, 1) | Some s \<Rightarrow> s) = (1, 1, 1)
   \<and> net_rectangles 0 0 1 1 1 ! 4 = (1, 1, 1, 1)
   \<and> u_range 64 (1, 1, 1, 1) = (1 / 64, 2 / 64)
   \<and> v_range 64 (1, 1, 1, 1) = (62 / 64, 63 / 64)
   \<and> face_block (cube_uvs 64 64 scenario2_cube) 4 =
        map Some [2 / 64, 63 / 64, 1 / 64, 63 / 64, 1 / 64, 62 / 64, 2 / 64, 62 / 64]"
proof -
  have t: "texture_size geometry64 = (64, 64)"
    by (simp add: texture_size_def geometry64_def or_number_def)
  have u: "cube_uv scenario2_cube = Some (JArr [JNum 0, JNum 0])"
    by (simp add: scenario2_cube_def)
  have s: "(case cube_size scenario2_cube of None \<Rightarrow> (1, 1, 1) | Some s \<Rightarrow> s) = (1, 1, 1)"
    by (simp add: scenario2_cube_def)
  show ?thesis
    using t u s bedrock_net_face_uvs[OF t u s]
    by (simp add: net_rectangles_def u_range_def v_range_def face_corners_def face_block_def
        mirrored_def scenario2_cube_def)
qed

lemma face_block_concat:
  assumes "blocks bs" "f < length bs"
  shows "face_block (concat bs) f = bs ! f"
  using assms
proof (induction bs arbitrary: f)
  case Nil
  then show ?case by simp
next
  case (Cons b bs)
  show ?case
  proof (cases f)
    case 0
    then show ?thesis using Cons.prems by (simp add: face_block_def blocks_def)
  next
    case (Suc k)
    have "face_block (concat bs) k = bs ! k"
      using Cons.IH[of k] Cons.prems Suc by (simp add: blocks_def)
    then show ?thesis using Cons.prems Suc by (simp add: face_block_def blocks_def)
  qed
qed

lemma face_block_numbers:
  assumes "texW \<noteq> 0" "texH \<noteq> 0"
      and "cube_uv c = Some (JArr [JNum u, JNum v])"
      and "(case cube_size c of None \<Rightarrow> (1, 1, 1) | Some s \<Rightarrow> s) = (w, h, d)"
      and "f < 6"
  shows "face_block (cube_uvs texW texH c) f =
     face_corners (mirrored c) (u_range texW (net_rectangles u v w h d ! f))
                  (v_range texH (net_rectangles u v w h d ! f))"
proof -
  let ?bs = "map (\<lambda>r. face_corners (mirrored c) (u_range texW r) (v_range texH r))
                 (net_rectangles u v w h d)"
  have len: "length ?bs = 6" by (simp add: net_rectangles_def)
  have "blocks ?bs" by (simp add: blocks_def)
  then have "face_block (concat ?bs) f = ?bs ! f"
    using assms(5) len by (intro face_block_concat) simp_all
  moreover have "?bs ! f = face_corners (mirrored c) (u_range texW (net_rectangles u v w h d ! f))
                  (v_range texH (net_rectangles u v w h d ! f))"
    using assms(5) len by (intro nth_map) simp
  ultimately show ?thesis
    using cube_uvs_numbers[OF assms(1-4)] by simp
qed

lemma vertex_cases: "k < 4 \<Longrightarrow> k = 0 \<or> k = 1 \<or> k = 2 \<or> k = (3::nat)"
  by arith

lemma face_corners_mirror:
  assumes "k < 4"
  shows "face_corners True us vs ! (2 * k + 1) = face_corners False us vs ! (2 * k + 1)"
    and "face_corners True us vs ! (2 * k) = face_corners False us vs ! (2 * opposite k)"
  using vertex_cases[OF assms]
  by (cases us; cases vs; auto simp: face_corners_def opposite_def)+

text \<open>
  C7. For a cube with a numeric \<open>uv\<close> pair, every face \<open>f\<close> and every vertex \<open>k\<close> of it:
  with \<open>mirror = true\<close> the V component is the one emitted with \<open>mirror = false\<close>, and
  the U component is the one that \<open>mirror = false\<close> gives to the other vertex of the same
  horizontal edge of the same face (left and right exchanged inside the face's own
  rectangle). An absent flag behaves as \<open>false\<close>.
\<close>

theorem mirror_flips_u_only:
  assumes "texture_size geom = (texW, texH)"
      and "cube_uv c = Some (JArr [JNum u, JNum v])"
      and "f < 6" and "k < 4"
  shows "face_v (cube_uvs texW texH (c\<lparr>cube_mirror := Some True\<rparr>)) f k
           = face_v (cube_uvs texW texH (c\<lparr>cube_mirror := Some False\<rparr>)) f k
       \<and> face_u (cube_uvs texW texH (c\<lparr>cube_mirror := Some True\<rparr>)) f k
           = face_u (cube_uvs texW texH (c\<lparr>cube_mirror := Some False\<rparr>)) f (opposite k)
       \<and> cube_uvs texW texH (c\<lparr>cube_mirror := None\<rparr>)
           = cube_uvs texW texH (c\<lparr>cube_mirror := Some False\<rparr>)"
proof -
  obtain w h d where s: "(case cube_size c of None \<Rightarrow> (1, 1, 1) | Some s \<Rightarrow> s) = (w, h, d)"
    by (cases "case cube_size c of None \<Rightarrow> (1, 1, 1) | Some s \<Rightarrow> s") auto
  note nz = texture_size_nonzero[OF assms(1)]
  let ?r = "net_rectangles u v w h d ! f"
  have t: "face_block (cube_uvs texW texH (c\<lparr>cube_mirror := Some True\<rparr>)) f
             = face_corners True (u_range texW ?r) (v_range texH ?r)"
    using face_block_numbers[OF nz, of "c\<lparr>cube_mirror := Some True\<rparr>" u v w h d f] assms(2,3) s
    by (simp add: mirrored_def)
  have e: "face_block (cube_uvs texW texH (c\<lparr>cube_mirror := Some False\<rparr>)) f
             = face_corners False (u_range texW ?r) (v_range texH ?r)"
    using face_block_numbers[OF nz, of "c\<lparr>cube_mirror := Some False\<rparr>" u v w h d f] assms(2,3) s
    by (simp add: mirrored_def)
  have n: "cube_uvs texW texH (c\<lparr>cube_mirror := None\<rparr>)
             = cube_uvs texW texH (c\<lparr>cube_mirror := Some False\<rparr>)"
    using cube_uvs_numbers[OF nz, of "c\<lparr>cube_mirror := None\<rparr>" u v w h d]
          cube_uvs_numbers[OF nz, of "c\<lparr>cube_mirror := Some False\<rparr>" u v w h d] assms(2) s
    by (simp add: mirrored_def)
  show ?thesis
    using face_corners_mirror[OF assms(4)] n by (simp add: face_u_def face_v_def t e)
qed

theorem mirror_flips_u_only_witness:
  "texture_size geometry64 = (64, 64)
   \<and> cube_uv scenario2_cube = Some (JArr [JNum 0, JNum 0])
   \<and> (4::nat) < 6 \<and> (0::nat) < 4
   \<and> face_v (cube_uvs 64 64 (scenario2_cube\<lparr>cube_mirror := Some True\<rparr>)) 4 0 = Some (63 / 64)
   \<and> face_v (cube_uvs 64 64 (scenario2_cube\<lparr>cube_mirror := Some False\<rparr>)) 4 0 = Some (63 / 64)
   \<and> face_u (cube_uvs 64 64 (scenario2_cube\<lparr>cube_mirror := Some True\<rparr>)) 4 0 = Some (1 / 64)
   \<and> face_u (cube_uvs 64 64 (scenario2_cube\<lparr>cube_mirror := Some False\<rparr>)) 4 (opposite 0) = Some (1 / 64)
   \<and> face_u (cube_uvs 64 64 (scenario2_cube\<lparr>cube_mirror := Some False\<rparr>)) 4 0 = Some (2 / 64)"
proof -
  have t: "texture_size geometry64 = (64, 64)"
    by (simp add: texture_size_def geometry64_def or_number_def)
  have u: "cube_uv scenario2_cube = Some (JArr [JNum 0, JNum 0])"
    by (simp add: scenario2_cube_def)
  have f: "(4::nat) < 6" and k: "(0::nat) < 4" by simp_all
  have plain: "face_block (cube_uvs 64 64 (scenario2_cube\<lparr>cube_mirror := Some False\<rparr>)) 4 =
        map Some [2 / 64, 63 / 64, 1 / 64, 63 / 64, 1 / 64, 62 / 64, 2 / 64, 62 / 64]"
    using face_block_numbers[of 64 64 "scenario2_cube\<lparr>cube_mirror := Some False\<rparr>" 0 0 1 1 1 4]
    by (simp add: scenario2_cube_def net_rectangles_def u_range_def v_range_def face_corners_def mirrored_def)
  show ?thesis
    using t u mirror_flips_u_only[OF t u f k] plain
    by (simp add: face_u_def face_v_def opposite_def)
qed

lemma arith_no_throw [simp]: "\<not> throws (arith f a b)"
  by (induction f a b rule: arith.induct) (simp_all split: option.split)

lemma js_binop_ok: "\<not> throws a \<Longrightarrow> \<not> throws b \<Longrightarrow> js_binop f a b = Inr (arith f a b)"
  by (simp add: js_binop_def)

lemma setFaceUV_returns:
  assumes "\<not> throws ux" "\<not> throws uy" "\<not> throws uw" "\<not> throws uh"
  shows "\<exists>g'. setFaceUV texW texH g f ux uy uw uh m = Inr g'"
  using assms
  by (simp add: setFaceUV_def js_add_def js_sub_def js_div_def js_binop_ok Let_def)

lemma try_block_returns:
  assumes "\<forall>f \<in> set fs. \<forall>s. \<exists>s'. f s = Inr s'"
  shows "fst (try_block fs s) = None"
  using assms
proof (induction fs arbitrary: s)
  case Nil
  then show ?case by simp
next
  case (Cons f fs)
  then obtain s' where "f s = Inr s'" by force
  then show ?case using Cons by simp
qed

lemma face_statements_return:
  assumes "\<not> coercion_throws u" "\<not> coercion_throws v"
  shows "\<forall>f \<in> set (face_statements texW texH u v w h d m). \<forall>g. \<exists>g'. f g = Inr g'"
proof -
  have a: "\<And>a b. \<not> throws a \<Longrightarrow> \<not> throws b \<Longrightarrow> js_add a b = Inr (arith (\<lambda>a b. Some (a + b)) a b)"
    by (simp add: js_add_def js_binop_ok)
  have u: "\<not> throws (Val u)" and v: "\<not> throws (Val v)" using assms by simp_all
  have n: "\<And>r. \<not> throws (Number r)" by simp
  show ?thesis
    unfolding face_statements_def face_call_def add3_def add4_def
    by (simp add: a u v n setFaceUV_returns del: throws.simps)
qed

lemma face_statements_throw:
  assumes "coercion_throws u \<or> coercion_throws v"
  shows "try_block (face_statements texW texH u v w h d m) g = (Some TypeError, g)"
proof (cases "coercion_throws u")
  case True
  then show ?thesis
    by (simp add: face_statements_def face_call_def add3_def js_add_def js_binop_def)
next
  case False
  then have v: "coercion_throws v" using assms by simp
  have "add3 (Val u) (Number d) (Number w) = Inr (arith (\<lambda>a b. Some (a + b)) (arith (\<lambda>a b. Some (a + b)) (Val u) (Number d)) (Number w))"
    using False by (simp add: add3_def js_add_def js_binop_ok)
  then show ?thesis using v
    by (simp add: face_statements_def face_call_def js_add_def js_binop_def)
qed

lemma uv_attempt_caught:
  assumes "fst (uv_attempt texW texH c sx sy sz g) = Some e"
  shows "uv_attempt texW texH c sx sy sz g = (Some TypeError, g)"
proof -
  obtain u v where uv: "cube_uv c = Some (JArr [u, v])"
    using assms
    by (auto simp: uv_attempt_def split: option.splits json.splits list.splits)
  have "coercion_throws u \<or> coercion_throws v"
  proof (rule ccontr)
    assume "\<not> (coercion_throws u \<or> coercion_throws v)"
    then have "fst (try_block (face_statements texW texH u v sx sy sz (cube_mirror c)) g) = None"
      by (intro try_block_returns face_statements_return) simp_all
    then show False using assms uv by (simp add: uv_attempt_def)
  qed
  then show ?thesis using uv by (simp add: uv_attempt_def face_statements_throw)
qed

lemma uv_attempt_other_shape:
  assumes "\<forall>a b. cube_uv c \<noteq> Some (JArr [a, b])"
  shows "uv_attempt texW texH c sx sy sz g = (None, g)"
  using assms
  by (auto simp: uv_attempt_def split: option.splits json.splits list.splits)

lemma cube_object_unmapped:
  assumes "\<And>sx sy sz g. apply_uv texW texH c sx sy sz g = g"
  shows "cube_object texW texH c = cube_object texW texH (c\<lparr>cube_uv := None\<rparr>)"
    and "cube_uvs texW texH c = default_uvs"
proof -
  have n: "\<And>sx sy sz g. apply_uv texW texH (c\<lparr>cube_uv := None\<rparr>) sx sy sz g = g"
    by (simp add: apply_uv_def uv_attempt_def)
  show "cube_object texW texH c = cube_object texW texH (c\<lparr>cube_uv := None\<rparr>)"
    by (simp add: cube_object_def assms n Let_def place_def)
  show "cube_uvs texW texH c = default_uvs"
    by (simp add: cube_uvs_apply assms BoxGeometry_def split: prod.split)
qed

lemma add_cubes_children:
  "root_children (add_cubes texW texH r cs) = root_children r @ map (cube_object texW texH) cs"
proof -
  have "root_children (foldl (\<lambda>r c. add r (cube_object texW texH c)) r cs)
          = root_children r @ map (cube_object texW texH) cs"
    by (induction cs arbitrary: r) (simp_all add: add_def)
  then show ?thesis by (simp add: add_cubes_def)
qed


lemma uv_attempt_fails_iff:
  "fst (uv_attempt texW texH c sx sy sz g) = Some e \<longleftrightarrow>
     e = TypeError \<and> (\<exists>u v. cube_uv c = Some (JArr [u, v]) \<and> (coercion_throws u \<or> coercion_throws v))"
proof
  assume a: "fst (uv_attempt texW texH c sx sy sz g) = Some e"
  then obtain u v where uv: "cube_uv c = Some (JArr [u, v])"
    by (auto simp: uv_attempt_def split: option.splits json.splits list.splits)
  have "coercion_throws u \<or> coercion_throws v"
  proof (rule ccontr)
    assume "\<not> (coercion_throws u \<or> coercion_throws v)"
    then have "fst (try_block (face_statements texW texH u v sx sy sz (cube_mirror c)) g) = None"
      by (intro try_block_returns face_statements_return) simp_all
    then show False using a uv by (simp add: uv_attempt_def)
  qed
  moreover have "e = TypeError" using uv_attempt_caught[OF a] a by simp
  ultimately show "e = TypeError \<and> (\<exists>u v. cube_uv c = Some (JArr [u, v]) \<and> (coercion_throws u \<or> coercion_throws v))"
    using uv by simp
next
  assume "e = TypeError \<and> (\<exists>u v. cube_uv c = Some (JArr [u, v]) \<and> (coercion_throws u \<or> coercion_throws v))"
  then show "fst (uv_attempt texW texH c sx sy sz g) = Some e"
    by (auto simp: uv_attempt_def face_statements_throw)
qed

lemma uv_error_unchanged:
  assumes "uv_error texW texH c = Some e"
  shows "apply_uv texW texH c sx sy sz g = g"
proof -
  obtain sx' sy' sz' g' where "fst (uv_attempt texW texH c sx' sy' sz' g') = Some e"
    using assms by (simp add: uv_error_def Let_def)
  then have "fst (uv_attempt texW texH c sx sy sz g) = Some e"
    by (simp add: uv_attempt_fails_iff)
  then have "uv_attempt texW texH c sx sy sz g = (Some TypeError, g)"
    by (rule uv_attempt_caught)
  then show ?thesis by (simp add: apply_uv_def)
qed

text \<open>
  C6. When the \<^verbatim>\<open>try\<close> block of a cube raises, the error is the TypeError of an operand
  conversion, it is caught there, the UV array of the cube's mesh is the engine's default
  (nothing was stored before the error), the object built for the cube is the one built
  for the same cube without \<open>uv\<close>, and the loop goes on: the children of the root are the
  objects of all cubes of the list, in order, the failing one among them.
\<close>

theorem uv_failure_falls_back:
  assumes "uv_error texW texH c = Some e"
  shows "e = TypeError
       \<and> cube_uvs texW texH c = default_uvs
       \<and> cube_object texW texH c = cube_object texW texH (c\<lparr>cube_uv := None\<rparr>)
       \<and> root_children (add_cubes texW texH r (before @ c # after))
           = root_children r @ map (cube_object texW texH) before
               @ cube_object texW texH (c\<lparr>cube_uv := None\<rparr>) # map (cube_object texW texH) after"
proof -
  have e: "e = TypeError"
    using assms by (simp add: uv_error_def Let_def uv_attempt_fails_iff)
  have u: "\<And>sx sy sz g. apply_uv texW texH c sx sy sz g = g"
    using assms by (rule uv_error_unchanged)
  show ?thesis
    using e cube_object_unmapped[of texW texH c, OF u] by (simp add: add_cubes_children)
qed

theorem uv_failure_falls_back_witness:
  "uv_error 64 64 failing_cube = Some TypeError
   \<and> cube_uvs 64 64 failing_cube = default_uvs
   \<and> cube_object 64 64 failing_cube = cube_object 64 64 (failing_cube\<lparr>cube_uv := None\<rparr>)
   \<and> root_children (add_cubes 64 64 Object3D ([] @ failing_cube # [scenario2_cube]))
        = [cube_object 64 64 (failing_cube\<lparr>cube_uv := None\<rparr>), cube_object 64 64 scenario2_cube]"
proof -
  have h: "uv_error 64 64 failing_cube = Some TypeError"
    by (simp add: uv_error_def failing_cube_def uv_attempt_def face_statements_def face_call_def
        add3_def js_add_def js_binop_def seq_def)
  show ?thesis
    using h uv_failure_falls_back[OF h, of Object3D "[]" "[scenario2_cube]"]
    by (simp add: Object3D_def)
qed

text \<open>
  C9. A cube whose \<open>uv\<close> is present but is not an array of exactly two elements raises
  nothing, keeps the engine's default UV array, and yields the object of the same cube
  without \<open>uv\<close>: same dimensions, same placement.
\<close>

theorem malformed_uv_ignored:
  assumes "cube_uv c = Some j" and "\<forall>a b. j \<noteq> JArr [a, b]"
  shows "uv_error texW texH c = None
       \<and> cube_uvs texW texH c = default_uvs
       \<and> cube_object texW texH c = cube_object texW texH (c\<lparr>cube_uv := None\<rparr>)"
proof -
  have s: "\<forall>a b. cube_uv c \<noteq> Some (JArr [a, b])" using assms by simp
  have u: "\<And>sx sy sz g. apply_uv texW texH c sx sy sz g = g"
    by (simp add: apply_uv_def uv_attempt_other_shape[OF s])
  show ?thesis
    using cube_object_unmapped[of texW texH c, OF u]
    by (simp add: uv_error_def Let_def uv_attempt_other_shape[OF s])
qed

theorem malformed_uv_ignored_witness:
  "cube_uvs 64 64 (scenario1_cube\<lparr>cube_uv := Some (JNum 5)\<rparr>) = default_uvs
   \<and> cube_uvs 64 64 (scenario1_cube\<lparr>cube_uv := Some (JArr [JNum 0, JNum 0, JNum 0])\<rparr>) = default_uvs
   \<and> cube_uvs 64 64 (scenario1_cube\<lparr>cube_uv := Some JNull\<rparr>) = default_uvs
   \<and> uv_error 64 64 (scenario1_cube\<lparr>cube_uv := Some (JNum 5)\<rparr>) = None
   \<and> cube_object 64 64 (scenario1_cube\<lparr>cube_uv := Some (JNum 5)\<rparr>) = cube_object 64 64 scenario1_cube
   \<and> cube_object 64 64 (scenario1_cube\<lparr>cube_uv := Some (JArr [JNum 0, JNum 0, JNum 0])\<rparr>)
        = cube_object 64 64 scenario1_cube
   \<and> cube_object 64 64 (scenario1_cube\<lparr>cube_uv := Some JNull\<rparr>) = cube_object 64 64 scenario1_cube"
  using malformed_uv_ignored[of "scenario1_cube\<lparr>cube_uv := Some (JNum 5)\<rparr>" "JNum 5" 64 64]
        malformed_uv_ignored[of "scenario1_cube\<lparr>cube_uv := Some (JArr [JNum 0, JNum 0, JNum 0])\<rparr>"
                                "JArr [JNum 0, JNum 0, JNum 0]" 64 64]
        malformed_uv_ignored[of "scenario1_cube\<lparr>cube_uv := Some JNull\<rparr>" JNull 64 64]
  by (simp add: scenario1_cube_def)

lemma rotate_default [simp]: "rotate default_rotation p = p"
  by (cases p) (simp add: rotate_def default_rotation_def)

lemma cube_object_place:
  assumes "(case cube_origin c of None \<Rightarrow> (0, 0, 0) | Some v \<Rightarrow> v) = (ox, oy, oz)"
      and "(case cube_size c of None \<Rightarrow> (1, 1, 1) | Some s \<Rightarrow> s) = (w, h, d)"
  shows "cube_object texW texH c =
     place c (Mesh (apply_uv texW texH c w h d (BoxGeometry w h d))) (ox + w / 2, oy + h / 2, oz + d / 2)"
  using assms by (simp add: cube_object_def Let_def cube_center_def)

lemma center_of_place: "center_of (place c m center) = center"
  by (cases center) (simp add: center_of_def place_def Let_def translate_def split: option.split)

text \<open>
  C2. With the origin defaulting to \<open>(0, 0, 0)\<close> and the size to \<open>(1, 1, 1)\<close>, the mesh
  of every cube sits at \<open>origin + size / 2\<close> in the frame of the root, the rotation of
  its group left aside; this holds whatever pivot and rotation the cube has, and for a
  cube without rotation it is the point to which the world matrix takes the centre of the
  mesh.
\<close>

theorem cube_center_formula:
  assumes "(case cube_origin c of None \<Rightarrow> (0, 0, 0) | Some v \<Rightarrow> v) = (ox, oy, oz)"
      and "(case cube_size c of None \<Rightarrow> (1, 1, 1) | Some s \<Rightarrow> s) = (w, h, d)"
  shows "center_of (cube_object texW texH c) = (ox + w / 2, oy + h / 2, oz + d / 2)
       \<and> center_of (cube_object texW texH (c\<lparr>cube_pivot := p, cube_rotation := r\<rparr>))
           = (ox + w / 2, oy + h / 2, oz + d / 2)
       \<and> (cube_rotation c = None \<longrightarrow>
            matrixWorld Object3D (cube_object texW texH c) (0, 0, 0) = (ox + w / 2, oy + h / 2, oz + d / 2))"
proof -
  have a: "center_of (cube_object texW texH c) = (ox + w / 2, oy + h / 2, oz + d / 2)"
    using assms by (simp add: cube_object_place center_of_place)
  have b: "center_of (cube_object texW texH (c\<lparr>cube_pivot := p, cube_rotation := r\<rparr>))
           = (ox + w / 2, oy + h / 2, oz + d / 2)"
    using assms
    by (simp add: cube_object_place[of "c\<lparr>cube_pivot := p, cube_rotation := r\<rparr>" ox oy oz w h d]
        center_of_place)
  have m: "matrixWorld Object3D (cube_object texW texH c) (0, 0, 0) = (ox + w / 2, oy + h / 2, oz + d / 2)"
    if "cube_rotation c = None"
    using assms that
    by (simp add: cube_object_place place_def Let_def Mesh_def root_matrix_def Object3D_def
        translate_def split: option.split)
  show ?thesis using a b m by simp
qed

theorem cube_center_formula_witness:
  "center_of (cube_object 64 64 scenario1_cube) = (1, 1, 1)
   \<and> center_of (cube_object 64 64 scenario3_cube) = (1, 1, 1)
   \<and> matrixWorld Object3D (cube_object 64 64 scenario1_cube) (0, 0, 0) = (1, 1, 1)"
proof -
  have o: "(case cube_origin scenario1_cube of None \<Rightarrow> (0, 0, 0) | Some v \<Rightarrow> v) = (0, 0, 0)"
    and s: "(case cube_size scenario1_cube of None \<Rightarrow> (1, 1, 1) | Some s \<Rightarrow> s) = (2, 2, 2)"
    and r: "cube_rotation scenario1_cube = None"
    and c3: "scenario3_cube = scenario1_cube\<lparr>cube_pivot := Some (1, 1, 1), cube_rotation := Some [0, 90, 0]\<rparr>"
    by (simp_all add: scenario1_cube_def scenario3_cube_def)
  show ?thesis
    using cube_center_formula[OF o s, where texW = 64 and texH = 64 and p = "Some (1, 1, 1)"
          and r = "Some [0, 90, 0]"] r c3 by simp
qed

text \<open>
  C3. A cube with a pivot or a rotation yields a group at the pivot (default
  \<open>(0, 0, 0)\<close>) that holds the mesh at \<open>center - pivot\<close>; the group's rotation has the
  order \<open>XYZ\<close>, for a rotation \<open>[rx, ry, rz]\<close> its angles are the three numbers
  converted from degrees to radians, so that it turns a point by \<open>Rx (Ry (Rz q))\<close>, and
  without a rotation it is the zero rotation. A cube with neither yields the mesh itself,
  at \<open>center\<close>.
\<close>

theorem pivot_group_placement:
  assumes "(case cube_origin c of None \<Rightarrow> (0, 0, 0) | Some v \<Rightarrow> v) = (ox, oy, oz)"
      and "(case cube_size c of None \<Rightarrow> (1, 1, 1) | Some s \<Rightarrow> s) = (w, h, d)"
      and "(case cube_pivot c of None \<Rightarrow> (0, 0, 0) | Some v \<Rightarrow> v) = (px, py, pz)"
  shows "(cube_pivot c \<noteq> None \<or> cube_rotation c \<noteq> None \<longrightarrow>
           (\<exists>g. cube_object texW texH c = ChildGroup g
              \<and> group_position g = (px, py, pz)
              \<and> mesh_position (group_mesh g) = (ox + w / 2 - px, oy + h / 2 - py, oz + d / 2 - pz)
              \<and> euler_order (group_rotation g) = XYZ
              \<and> (cube_rotation c = None \<longrightarrow> group_rotation g = default_rotation)
              \<and> (\<forall>rx ry rz. cube_rotation c = Some [rx, ry, rz] \<longrightarrow>
                    euler_x (group_rotation g) = degToRad rx
                  \<and> euler_y (group_rotation g) = degToRad ry
                  \<and> euler_z (group_rotation g) = degToRad rz
                  \<and> (\<forall>q. rotate (group_rotation g) q
                         = rot_x (degToRad rx) (rot_y (degToRad ry) (rot_z (degToRad rz) q))))))
       \<and> (cube_pivot c = None \<and> cube_rotation c = None \<longrightarrow>
           (\<exists>m. cube_object texW texH c = ChildMesh m
              \<and> mesh_position m = (ox + w / 2, oy + h / 2, oz + d / 2)))"
proof -
  have o: "or_number (Some x) 0 = x" for x by (simp add: or_number_def)
  show ?thesis
    using assms(3)
    by (auto simp: cube_object_place[OF assms(1,2)] place_def Let_def Mesh_def default_rotation_def
        element_def o rotate_def split: option.split)
qed

theorem pivot_group_placement_witness:
  "(\<exists>g. cube_object 64 64 scenario3_cube = ChildGroup g
      \<and> group_position g = (1, 1, 1)
      \<and> mesh_position (group_mesh g) = (0, 0, 0)
      \<and> group_rotation g = \<lparr>euler_x = 0, euler_y = pi / 2, euler_z = 0, euler_order = XYZ\<rparr>)
   \<and> (\<exists>m. cube_object 64 64 scenario1_cube = ChildMesh m \<and> mesh_position m = (1, 1, 1))"
proof -
  have o3: "(case cube_origin scenario3_cube of None \<Rightarrow> (0, 0, 0) | Some v \<Rightarrow> v) = (0, 0, 0)"
    and s3: "(case cube_size scenario3_cube of None \<Rightarrow> (1, 1, 1) | Some s \<Rightarrow> s) = (2, 2, 2)"
    and p3: "(case cube_pivot scenario3_cube of None \<Rightarrow> (0, 0, 0) | Some v \<Rightarrow> v) = (1, 1, 1)"
    and r3: "cube_rotation scenario3_cube = Some [0, 90, 0]"
    by (simp_all add: scenario3_cube_def)
  have o1: "(case cube_origin scenario1_cube of None \<Rightarrow> (0, 0, 0) | Some v \<Rightarrow> v) = (0, 0, 0)"
    and s1: "(case cube_size scenario1_cube of None \<Rightarrow> (1, 1, 1) | Some s \<Rightarrow> s) = (2, 2, 2)"
    and p1: "(case cube_pivot scenario1_cube of None \<Rightarrow> (0, 0, 0) | Some v \<Rightarrow> v) = (0, 0, 0)"
    and n1: "cube_pivot scenario1_cube = None" "cube_rotation scenario1_cube = None"
    by (simp_all add: scenario1_cube_def)
  have "\<exists>g. cube_object 64 64 scenario3_cube = ChildGroup g
      \<and> group_position g = (1, 1, 1)
      \<and> mesh_position (group_mesh g) = (0, 0, 0)
      \<and> group_rotation g = \<lparr>euler_x = 0, euler_y = pi / 2, euler_z = 0, euler_order = XYZ\<rparr>"
    using pivot_group_placement[OF o3 s3 p3, where texW = 64 and texH = 64] r3
    by (auto simp: degToRad_def)
  moreover have "\<exists>m. cube_object 64 64 scenario1_cube = ChildMesh m \<and> mesh_position m = (1, 1, 1)"
    using pivot_group_placement[OF o1 s1 p1, where texW = 64 and texH = 64] n1 by simp
  ultimately show ?thesis by simp
qed

lemma expandByPoint_nonempty:
  assumes "b = None \<or> \<not> isEmpty b"
  shows "\<not> isEmpty (expandByPoint b p)"
  using assms by (cases p) (auto simp: expandByPoint_def isEmpty_def split: option.splits)

lemma foldl_expandByPoint_nonempty:
  assumes "\<not> isEmpty b"
  shows "\<not> isEmpty (foldl expandByPoint b ps)"
  using assms by (induction ps arbitrary: b) (simp_all add: expandByPoint_nonempty)

lemma setFromPoints_nonempty: "ps \<noteq> [] \<Longrightarrow> \<not> isEmpty (setFromPoints ps)"
  by (cases ps) (simp_all add: setFromPoints_def foldl_expandByPoint_nonempty expandByPoint_nonempty)

lemma computeBoundingBox_nonempty: "\<not> isEmpty (computeBoundingBox g)"
  by (simp add: computeBoundingBox_def corners_def setFromPoints_nonempty)

lemma applyMatrix4_nonempty: "\<not> isEmpty b \<Longrightarrow> \<not> isEmpty (applyMatrix4 b m)"
  by (auto simp: applyMatrix4_def corners_def setFromPoints_nonempty split: option.splits)

lemma union_box_nonempty:
  assumes "a = None \<or> \<not> isEmpty a" "\<not> isEmpty b"
  shows "\<not> isEmpty (union_box a b)"
  using assms by (auto simp: union_box_def isEmpty_def split: option.splits)

lemma expandByObject_nonempty:
  assumes "b = None \<or> \<not> isEmpty b"
  shows "\<not> isEmpty (expandByObject modelRoot b c)"
  unfolding expandByObject_def
  using assms by (intro union_box_nonempty applyMatrix4_nonempty computeBoundingBox_nonempty)

lemma foldl_expandByObject_nonempty:
  assumes "\<not> isEmpty b"
  shows "\<not> isEmpty (foldl (expandByObject modelRoot) b cs)"
  using assms by (induction cs arbitrary: b) (simp_all add: expandByObject_nonempty)

lemma setFromObject_empty_iff: "isEmpty (setFromObject modelRoot) \<longleftrightarrow> root_children modelRoot = []"
proof (cases "root_children modelRoot")
  case Nil
  then show ?thesis by (simp add: setFromObject_def isEmpty_def)
next
  case (Cons c cs)
  have "\<not> isEmpty (expandByObject modelRoot None c)"
    by (simp add: expandByObject_nonempty)
  then have "\<not> isEmpty (foldl (expandByObject modelRoot) (expandByObject modelRoot None c) cs)"
    by (rule foldl_expandByObject_nonempty)
  then show ?thesis using Cons by (simp add: setFromObject_def)
qed

lemma maxDimension_nonneg: "\<not> isEmpty b \<Longrightarrow> 0 \<le> maxDimension (getSize b)"
  by (auto simp: maxDimension_def getSize_def isEmpty_def split: option.splits)

text \<open>
  The root that \<^verbatim>\<open>loadModel\<close> builds is not moved and not scaled, and its children are
  the objects of the cubes, bone by bone in the order of the map. So what is shown for one
  cube holds for every child of the root, and what is shown for a root with an arbitrary
  list of children holds for the root that is built.
\<close>

lemma foldl_add_bone_children:
  "foldl (add_bone texW texH) r es =
     r\<lparr>root_children := root_children r @
        concat (map (\<lambda>e. case bone_cubes (snd e) of None \<Rightarrow> []
                                | Some cs \<Rightarrow> map (cube_object texW texH) cs) es)\<rparr>"
proof (induction es arbitrary: r)
  case Nil
  show ?case by simp
next
  case (Cons e es)
  have "add_bone texW texH r e =
      r\<lparr>root_children := root_children r @
          (case bone_cubes (snd e) of None \<Rightarrow> [] | Some cs \<Rightarrow> map (cube_object texW texH) cs)\<rparr>"
  proof (cases "bone_cubes (snd e)")
    case None
    then show ?thesis by (simp add: add_bone_def)
  next
    case (Some cs)
    have "add_cubes texW texH r cs = r\<lparr>root_children := root_children r @ map (cube_object texW texH) cs\<rparr>"
      unfolding add_cubes_def
      by (induction cs arbitrary: r) (simp_all add: add_def)
    then show ?thesis using Some by (simp add: add_bone_def)
  qed
  then show ?case using Cons.IH by simp
qed

lemma build_model_children:
  assumes "texture_size geom = (texW, texH)"
  shows "build_model geom =
     Object3D\<lparr>root_children :=
        concat (map (\<lambda>e. case bone_cubes (snd e) of None \<Rightarrow> []
                                | Some cs \<Rightarrow> map (cube_object texW texH) cs) (geometry_bones geom))\<rparr>"
  using assms by (simp add: build_model_def foldl_add_bone_children Object3D_def)

lemma maxDimension_largest:
  assumes "m \<in> {w, h, d}" "w \<le> m" "h \<le> m" "d \<le> m"
  shows "maxDimension (w, h, d) = m"
  using assms by (auto simp: maxDimension_def max_def)

text \<open>
  C4. For a root that holds any list \<open>cs\<close> of box primitives and has not been moved or
  scaled, let the bounding box have the size \<open>(w, h, d)\<close> and let \<open>maxDim\<close> be the
  largest of \<open>w\<close>, \<open>h\<close> and \<open>d\<close>: one of the three and not below any of them. When the
  box is not empty, the root that enters the scene has the negated centre of the box as
  its position, the scale \<open>60 / maxDim\<close> on all axes when \<open>maxDim\<close> is positive and the
  scale 1 when it is zero (it is never negative), and the same children; when the box is
  empty, the root enters the scene as it is and nothing else changes. The box is empty
  exactly when there is no primitive.
\<close>

theorem normalization:
  assumes "modelRoot = Object3D\<lparr>root_children := cs\<rparr>"
      and "box = setFromObject modelRoot"
      and "getCenter box = (cx, cy, cz)"
      and "getSize box = (w, h, d)"
      and "maxDim \<in> {w, h, d}" and "w \<le> maxDim" and "h \<le> maxDim" and "d \<le> maxDim"
  shows "(\<not> isEmpty box \<longrightarrow>
           (\<exists>placed. frame_model modelRoot st = st
                \<lparr>scene := scene st @ [placed],
                 controls_target := (0, 0, 0),
                 camera_position := (2 * maxDim * 0.8, 2 * maxDim * 0.6, 2 * maxDim * 1.2),
                 camera_near := 0.1,
                 camera_far := 2 * maxDim * 10 + 100\<rparr>
              \<and> root_children placed = cs
              \<and> root_position placed = (- cx, - cy, - cz)
              \<and> (0 < maxDim \<longrightarrow> root_scale placed = (60 / maxDim, 60 / maxDim, 60 / maxDim))
              \<and> (maxDim = 0 \<longrightarrow> root_scale placed = (1, 1, 1))
              \<and> 0 \<le> maxDim))
       \<and> (isEmpty box \<longrightarrow> frame_model modelRoot st = st\<lparr>scene := scene st @ [modelRoot]\<rparr>)
       \<and> (isEmpty box \<longleftrightarrow> cs = [])"
proof -
  have m: "maxDimension (getSize box) = maxDim"
    using assms(4-8) by (simp add: maxDimension_largest)
  have e: "isEmpty box \<longleftrightarrow> cs = []"
    using assms(1,2) by (simp add: setFromObject_empty_iff)
  have n: "0 \<le> maxDim" if "\<not> isEmpty box"
    using that m maxDimension_nonneg[of box] by simp
  have p: "\<exists>placed. frame_model modelRoot st = st
                \<lparr>scene := scene st @ [placed],
                 controls_target := (0, 0, 0),
                 camera_position := (2 * maxDim * 0.8, 2 * maxDim * 0.6, 2 * maxDim * 1.2),
                 camera_near := 0.1,
                 camera_far := 2 * maxDim * 10 + 100\<rparr>
              \<and> root_children placed = cs
              \<and> root_position placed = (- cx, - cy, - cz)
              \<and> (0 < maxDim \<longrightarrow> root_scale placed = (60 / maxDim, 60 / maxDim, 60 / maxDim))
              \<and> (maxDim = 0 \<longrightarrow> root_scale placed = (1, 1, 1))
              \<and> 0 \<le> maxDim"
    if ne: "\<not> isEmpty box"
    using ne n[OF ne] m assms(1,2,3)
    by (auto simp: frame_model_def normalize_def Let_def Object3D_def)
  have q: "frame_model modelRoot st = st\<lparr>scene := scene st @ [modelRoot]\<rparr>" if "isEmpty box"
    using that assms(2) by (simp add: frame_model_def Let_def)
  show ?thesis using e p q by blast
qed

lemma scenario1_box:
  "setFromObject (Object3D\<lparr>root_children := [cube_object 64 64 scenario1_cube]\<rparr>) = Some ((0, 0, 0), (2, 2, 2))"
  by (simp add: setFromObject_def expandByObject_def scenario1_cube_def cube_object_def place_def
      Let_def cube_center_def Mesh_def apply_uv_def uv_attempt_def BoxGeometry_def computeBoundingBox_def
      corners_def setFromPoints_def expandByPoint_def applyMatrix4_def isEmpty_def union_box_def
      root_matrix_def translate_def Object3D_def)

lemma point_box:
  "setFromObject (Object3D\<lparr>root_children := [cube_object 64 64 point_cube]\<rparr>) = Some ((3, 4, 5), (3, 4, 5))"
  by (simp add: setFromObject_def expandByObject_def point_cube_def cube_object_def place_def
      Let_def cube_center_def Mesh_def apply_uv_def uv_attempt_def BoxGeometry_def computeBoundingBox_def
      corners_def setFromPoints_def expandByPoint_def applyMatrix4_def isEmpty_def union_box_def
      root_matrix_def translate_def Object3D_def)

lemma wide_box:
  "setFromObject (Object3D\<lparr>root_children := [cube_object 64 64 wide_cube]\<rparr>) = Some ((0, 0, 0), (6, 2, 3))"
  by (simp add: setFromObject_def expandByObject_def wide_cube_def cube_object_def place_def
      Let_def cube_center_def Mesh_def apply_uv_def uv_attempt_def BoxGeometry_def computeBoundingBox_def
      corners_def setFromPoints_def expandByPoint_def applyMatrix4_def isEmpty_def union_box_def
      root_matrix_def translate_def Object3D_def)

lemma tall_box:
  "setFromObject (Object3D\<lparr>root_children := [cube_object 64 64 tall_cube]\<rparr>) = Some ((0, 0, 0), (2, 4, 2))"
  by (simp add: setFromObject_def expandByObject_def tall_cube_def cube_object_def place_def
      Let_def cube_center_def Mesh_def apply_uv_def uv_attempt_def BoxGeometry_def computeBoundingBox_def
      corners_def setFromPoints_def expandByPoint_def applyMatrix4_def isEmpty_def union_box_def
      root_matrix_def translate_def Object3D_def)

lemma deep_box:
  "setFromObject (Object3D\<lparr>root_children := [cube_object 64 64 deep_cube]\<rparr>) = Some ((0, 0, 0), (1, 2, 5))"
  by (simp add: setFromObject_def expandByObject_def deep_cube_def cube_object_def place_def
      Let_def cube_center_def Mesh_def apply_uv_def uv_attempt_def BoxGeometry_def computeBoundingBox_def
      corners_def setFromPoints_def expandByPoint_def applyMatrix4_def isEmpty_def union_box_def
      root_matrix_def translate_def Object3D_def)

theorem normalization_witness:
  "(\<exists>placed. frame_model (Object3D\<lparr>root_children := [cube_object 64 64 scenario1_cube]\<rparr>) bootstrap_viewer
        = bootstrap_viewer\<lparr>scene := scene bootstrap_viewer @ [placed], controls_target := (0, 0, 0),
            camera_position := (3.2, 2.4, 4.8), camera_near := 0.1, camera_far := 140\<rparr>
      \<and> root_position placed = (- 1, - 1, - 1) \<and> root_scale placed = (30, 30, 30))
   \<and> (\<exists>placed. frame_model (Object3D\<lparr>root_children := [cube_object 64 64 point_cube]\<rparr>) bootstrap_viewer
        = bootstrap_viewer\<lparr>scene := scene bootstrap_viewer @ [placed], controls_target := (0, 0, 0),
            camera_position := (0, 0, 0), camera_near := 0.1, camera_far := 100\<rparr>
      \<and> root_position placed = (- 3, - 4, - 5) \<and> root_scale placed = (1, 1, 1))
   \<and> frame_model (Object3D\<lparr>root_children := []\<rparr>) bootstrap_viewer
        = bootstrap_viewer\<lparr>scene := scene bootstrap_viewer @ [Object3D\<lparr>root_children := []\<rparr>]\<rparr>
   \<and> (\<exists>placed. frame_model (Object3D\<lparr>root_children := [cube_object 64 64 wide_cube]\<rparr>) bootstrap_viewer
        = bootstrap_viewer\<lparr>scene := scene bootstrap_viewer @ [placed], controls_target := (0, 0, 0),
            camera_position := (9.6, 7.2, 14.4), camera_near := 0.1, camera_far := 220\<rparr>
      \<and> root_position placed = (- 3, - 1, - 1.5) \<and> root_scale placed = (10, 10, 10))
   \<and> (\<exists>placed. frame_model (Object3D\<lparr>root_children := [cube_object 64 64 tall_cube]\<rparr>) bootstrap_viewer
        = bootstrap_viewer\<lparr>scene := scene bootstrap_viewer @ [placed], controls_target := (0, 0, 0),
            camera_position := (6.4, 4.8, 9.6), camera_near := 0.1, camera_far := 180\<rparr>
      \<and> root_position placed = (- 1, - 2, - 1) \<and> root_scale placed = (15, 15, 15))
   \<and> (\<exists>placed. frame_model (Object3D\<lparr>root_children := [cube_object 64 64 deep_cube]\<rparr>) bootstrap_viewer
        = bootstrap_viewer\<lparr>scene := scene bootstrap_viewer @ [placed], controls_target := (0, 0, 0),
            camera_position := (8, 6, 12), camera_near := 0.1, camera_far := 200\<rparr>
      \<and> root_position placed = (- 0.5, - 1, - 2.5) \<and> root_scale placed = (12, 12, 12))"
proof -
  let ?A = "Object3D\<lparr>root_children := [cube_object 64 64 scenario1_cube]\<rparr>"
  let ?B = "Object3D\<lparr>root_children := [cube_object 64 64 point_cube]\<rparr>"
  let ?C = "Object3D\<lparr>root_children := []\<rparr>"
  let ?W = "Object3D\<lparr>root_children := [cube_object 64 64 wide_cube]\<rparr>"
  let ?T = "Object3D\<lparr>root_children := [cube_object 64 64 tall_cube]\<rparr>"
  let ?D = "Object3D\<lparr>root_children := [cube_object 64 64 deep_cube]\<rparr>"
  have ca: "getCenter (setFromObject ?A) = (1, 1, 1)"
    and sa: "getSize (setFromObject ?A) = (2, 2, 2)"
    and na: "\<not> isEmpty (setFromObject ?A)"
    by (simp_all add: scenario1_box getCenter_def getSize_def isEmpty_def)
  have cb: "getCenter (setFromObject ?B) = (3, 4, 5)"
    and sb: "getSize (setFromObject ?B) = (0, 0, 0)"
    and nb: "\<not> isEmpty (setFromObject ?B)"
    by (simp_all add: point_box getCenter_def getSize_def isEmpty_def)
  have cc: "getCenter (setFromObject ?C) = (0, 0, 0)"
    and sc: "getSize (setFromObject ?C) = (0, 0, 0)"
    and nc: "isEmpty (setFromObject ?C)"
    by (simp_all add: setFromObject_def getCenter_def getSize_def isEmpty_def)
  have cw: "getCenter (setFromObject ?W) = (3, 1, 1.5)"
    and sw: "getSize (setFromObject ?W) = (6, 2, 3)"
    and nw: "\<not> isEmpty (setFromObject ?W)"
    by (simp_all add: wide_box getCenter_def getSize_def isEmpty_def)
  have ct: "getCenter (setFromObject ?T) = (1, 2, 1)"
    and st: "getSize (setFromObject ?T) = (2, 4, 2)"
    and nt: "\<not> isEmpty (setFromObject ?T)"
    by (simp_all add: tall_box getCenter_def getSize_def isEmpty_def)
  have cd: "getCenter (setFromObject ?D) = (0.5, 1, 2.5)"
    and sd: "getSize (setFromObject ?D) = (1, 2, 5)"
    and nd: "\<not> isEmpty (setFromObject ?D)"
    by (simp_all add: deep_box getCenter_def getSize_def isEmpty_def)
  have a: "\<exists>placed. frame_model ?A bootstrap_viewer
        = bootstrap_viewer\<lparr>scene := scene bootstrap_viewer @ [placed], controls_target := (0, 0, 0),
            camera_position := (3.2, 2.4, 4.8), camera_near := 0.1, camera_far := 140\<rparr>
      \<and> root_position placed = (- 1, - 1, - 1) \<and> root_scale placed = (30, 30, 30)"
    using normalization[OF refl refl ca sa, of 2 bootstrap_viewer] na by auto
  have b: "\<exists>placed. frame_model ?B bootstrap_viewer
        = bootstrap_viewer\<lparr>scene := scene bootstrap_viewer @ [placed], controls_target := (0, 0, 0),
            camera_position := (0, 0, 0), camera_near := 0.1, camera_far := 100\<rparr>
      \<and> root_position placed = (- 3, - 4, - 5) \<and> root_scale placed = (1, 1, 1)"
    using normalization[OF refl refl cb sb, of 0 bootstrap_viewer] nb by auto
  have c: "frame_model ?C bootstrap_viewer
        = bootstrap_viewer\<lparr>scene := scene bootstrap_viewer @ [?C]\<rparr>"
    using normalization[OF refl refl cc sc, of 0 bootstrap_viewer] nc by simp
  have w: "\<exists>placed. frame_model ?W bootstrap_viewer
        = bootstrap_viewer\<lparr>scene := scene bootstrap_viewer @ [placed], controls_target := (0, 0, 0),
            camera_position := (9.6, 7.2, 14.4), camera_near := 0.1, camera_far := 220\<rparr>
      \<and> root_position placed = (- 3, - 1, - 1.5) \<and> root_scale placed = (10, 10, 10)"
    using normalization[OF refl refl cw sw, of 6 bootstrap_viewer] nw by auto
  have t: "\<exists>placed. frame_model ?T bootstrap_viewer
        = bootstrap_viewer\<lparr>scene := scene bootstrap_viewer @ [placed], controls_target := (0, 0, 0),
            camera_position := (6.4, 4.8, 9.6), camera_near := 0.1, camera_far := 180\<rparr>
      \<and> root_position placed = (- 1, - 2, - 1) \<and> root_scale placed = (15, 15, 15)"
    using normalization[OF refl refl ct st, of 4 bootstrap_viewer] nt by auto
  have d: "\<exists>placed. frame_model ?D bootstrap_viewer
        = bootstrap_viewer\<lparr>scene := scene bootstrap_viewer @ [placed], controls_target := (0, 0, 0),
            camera_position := (8, 6, 12), camera_near := 0.1, camera_far := 200\<rparr>
      \<and> root_position placed = (- 0.5, - 1, - 2.5) \<and> root_scale placed = (12, 12, 12)"
    using normalization[OF refl refl cd sd, of 5 bootstrap_viewer] nd by auto
  show ?thesis using a b c w t d by simp
qed

text \<open>
  C8. Whenever the bounding box of the root, taken before the root is moved and scaled,
  is not empty, with \<open>(w, h, d)\<close> its size and \<open>maxDim\<close> the largest of \<open>w\<close>, \<open>h\<close>
  and \<open>d\<close> (one of the three and not below any of them), the load leaves the camera at
  \<open>(0.8 dist, 0.6 dist, 1.2 dist)\<close> with \<open>dist = 2 maxDim\<close>, the near plane at 0.1,
  the far plane at \<open>10 dist + 100\<close> and the orbit target at the origin.
\<close>

theorem camera_framing:
  assumes "\<not> isEmpty (setFromObject modelRoot)"
      and "getSize (setFromObject modelRoot) = (w, h, d)"
      and "maxDim \<in> {w, h, d}" and "w \<le> maxDim" and "h \<le> maxDim" and "d \<le> maxDim"
      and "cameraDist = 2 * maxDim"
  shows "camera_position (frame_model modelRoot st) = (0.8 * cameraDist, 0.6 * cameraDist, 1.2 * cameraDist)
       \<and> camera_near (frame_model modelRoot st) = 0.1
       \<and> camera_far (frame_model modelRoot st) = 10 * cameraDist + 100
       \<and> controls_target (frame_model modelRoot st) = (0, 0, 0)"
proof -
  have "maxDimension (getSize (setFromObject modelRoot)) = maxDim"
    using assms(2-6) by (simp add: maxDimension_largest)
  then show ?thesis
    using assms(1,7) by (simp add: frame_model_def Let_def)
qed

theorem camera_framing_witness:
  "camera_position (frame_model (Object3D\<lparr>root_children := [cube_object 64 64 scenario1_cube]\<rparr>) bootstrap_viewer)
        = (3.2, 2.4, 4.8)
   \<and> camera_near (frame_model (Object3D\<lparr>root_children := [cube_object 64 64 scenario1_cube]\<rparr>) bootstrap_viewer) = 0.1
   \<and> camera_far (frame_model (Object3D\<lparr>root_children := [cube_object 64 64 scenario1_cube]\<rparr>) bootstrap_viewer) = 140
   \<and> controls_target (frame_model (Object3D\<lparr>root_children := [cube_object 64 64 scenario1_cube]\<rparr>) bootstrap_viewer)
        = (0, 0, 0)
   \<and> camera_position (frame_model (Object3D\<lparr>root_children := [cube_object 64 64 wide_cube]\<rparr>) bootstrap_viewer)
        = (9.6, 7.2, 14.4)
   \<and> camera_far (frame_model (Object3D\<lparr>root_children := [cube_object 64 64 wide_cube]\<rparr>) bootstrap_viewer) = 220
   \<and> camera_position (frame_model (Object3D\<lparr>root_children := [cube_object 64 64 tall_cube]\<rparr>) bootstrap_viewer)
        = (6.4, 4.8, 9.6)
   \<and> camera_far (frame_model (Object3D\<lparr>root_children := [cube_object 64 64 tall_cube]\<rparr>) bootstrap_viewer) = 180
   \<and> camera_position (frame_model (Object3D\<lparr>root_children := [cube_object 64 64 deep_cube]\<rparr>) bootstrap_viewer)
        = (8, 6, 12)
   \<and> camera_far (frame_model (Object3D\<lparr>root_children := [cube_object 64 64 deep_cube]\<rparr>) bootstrap_viewer) = 200"
proof -
  let ?A = "Object3D\<lparr>root_children := [cube_object 64 64 scenario1_cube]\<rparr>"
  let ?W = "Object3D\<lparr>root_children := [cube_object 64 64 wide_cube]\<rparr>"
  let ?T = "Object3D\<lparr>root_children := [cube_object 64 64 tall_cube]\<rparr>"
  let ?D = "Object3D\<lparr>root_children := [cube_object 64 64 deep_cube]\<rparr>"
  have na: "\<not> isEmpty (setFromObject ?A)" and sa: "getSize (setFromObject ?A) = (2, 2, 2)"
    by (simp_all add: scenario1_box getSize_def isEmpty_def)
  have nw: "\<not> isEmpty (setFromObject ?W)" and sw: "getSize (setFromObject ?W) = (6, 2, 3)"
    by (simp_all add: wide_box getSize_def isEmpty_def)
  have nt: "\<not> isEmpty (setFromObject ?T)" and st: "getSize (setFromObject ?T) = (2, 4, 2)"
    by (simp_all add: tall_box getSize_def isEmpty_def)
  have nd: "\<not> isEmpty (setFromObject ?D)" and sd: "getSize (setFromObject ?D) = (1, 2, 5)"
    by (simp_all add: deep_box getSize_def isEmpty_def)
  have a: "camera_position (frame_model ?A bootstrap_viewer) = (3.2, 2.4, 4.8)
         \<and> camera_near (frame_model ?A bootstrap_viewer) = 0.1
         \<and> camera_far (frame_model ?A bootstrap_viewer) = 140
         \<and> controls_target (frame_model ?A bootstrap_viewer) = (0, 0, 0)"
    using camera_framing[OF na sa, of 2 4 bootstrap_viewer] by simp
  have w: "camera_position (frame_model ?W bootstrap_viewer) = (9.6, 7.2, 14.4)
         \<and> camera_far (frame_model ?W bootstrap_viewer) = 220"
    using camera_framing[OF nw sw, of 6 12 bootstrap_viewer] by simp
  have t: "camera_position (frame_model ?T bootstrap_viewer) = (6.4, 4.8, 9.6)
         \<and> camera_far (frame_model ?T bootstrap_viewer) = 180"
    using camera_framing[OF nt st, of 4 8 bootstrap_viewer] by simp
  have d: "camera_position (frame_model ?D bootstrap_viewer) = (8, 6, 12)
         \<and> camera_far (frame_model ?D bootstrap_viewer) = 200"
    using camera_framing[OF nd sd, of 5 10 bootstrap_viewer] by simp
  show ?thesis using a w t d by simp
qed



lemma two_cube_file_entry:
  "\<exists>g. geometry_entry two_cube_file = Inr g \<and> as_geometry g = Some two_cube_geometry"
  by (simp add: two_cube_file_def geometry_entry_def own_def as_geometry_def as_description_def
      as_bone_def as_cube_def as_vec3_def optional_def two_cube_geometry_def first_cube_def
      second_cube_def)





lemma setFaceUV_only_uvs:
  "setFaceUV texW texH g f ux uy uw uh m = Inr g' \<Longrightarrow> g'\<lparr>uv_array := x\<rparr> = g\<lparr>uv_array := x\<rparr>"
  by (auto simp: setFaceUV_def seq_def Let_def split: sum.splits)

lemma face_call_only_uvs:
  "face_call texW texH f a b uw uh m g = Inr g' \<Longrightarrow> g'\<lparr>uv_array := x\<rparr> = g\<lparr>uv_array := x\<rparr>"
  by (auto simp: face_call_def seq_def split: sum.splits dest: setFaceUV_only_uvs)

lemma try_block_only_uvs:
  assumes "\<forall>f \<in> set fs. \<forall>g g'. f g = Inr g' \<longrightarrow> g'\<lparr>uv_array := x\<rparr> = g\<lparr>uv_array := x\<rparr>"
  shows "(snd (try_block fs g))\<lparr>uv_array := x\<rparr> = g\<lparr>uv_array := x\<rparr>"
  using assms
proof (induction fs arbitrary: g)
  case Nil
  then show ?case by simp
next
  case (Cons f fs)
  show ?case
  proof (cases "f g")
    case (Inl e)
    then show ?thesis by simp
  next
    case (Inr g')
    then have "g'\<lparr>uv_array := x\<rparr> = g\<lparr>uv_array := x\<rparr>" using Cons.prems by simp
    moreover have "(snd (try_block fs g'))\<lparr>uv_array := x\<rparr> = g'\<lparr>uv_array := x\<rparr>"
      using Cons by simp
    ultimately show ?thesis using Inr by simp
  qed
qed

lemma apply_uv_only_uvs:
  "(apply_uv texW texH c sx sy sz g)\<lparr>uv_array := x\<rparr> = g\<lparr>uv_array := x\<rparr>"
proof (cases "\<exists>u v. cube_uv c = Some (JArr [u, v])")
  case True
  then obtain u v where uv: "cube_uv c = Some (JArr [u, v])" by blast
  have "\<forall>f \<in> set (face_statements texW texH u v sx sy sz (cube_mirror c)).
          \<forall>g g'. f g = Inr g' \<longrightarrow> g'\<lparr>uv_array := x\<rparr> = g\<lparr>uv_array := x\<rparr>"
    by (auto simp: face_statements_def dest: face_call_only_uvs)
  then show ?thesis using uv by (simp add: apply_uv_def uv_attempt_def try_block_only_uvs)
next
  case False
  then show ?thesis by (simp add: apply_uv_def uv_attempt_other_shape)
qed

lemma plain_child_place:
  "plain_child (place c m center) = place c (plain_mesh m) center"
  by (simp add: place_def Let_def plain_mesh_def)

lemma plain_cube_object: "plain_child (cube_object texW texH c) = cube_object_plain c"
proof -
  have "(apply_uv texW texH c sx sy sz (BoxGeometry sx sy sz))\<lparr>uv_array := default_uvs\<rparr> = BoxGeometry sx sy sz"
    for sx sy sz
    unfolding apply_uv_only_uvs by (simp add: BoxGeometry_def)
  then show ?thesis
    by (simp add: cube_object_def cube_object_plain_def Let_def plain_child_place plain_mesh_def Mesh_def)
qed

lemma plain_root_add: "plain_root (add r ch) = add (plain_root r) (plain_child ch)"
  by (simp add: plain_root_def add_def)

lemma plain_add_cubes: "plain_root (add_cubes texW texH r cs) = add_cubes_plain (plain_root r) cs"
proof -
  have "plain_root (foldl (\<lambda>r c. add r (cube_object texW texH c)) r cs)
          = foldl (\<lambda>r c. add r (cube_object_plain c)) (plain_root r) cs"
    by (induction cs arbitrary: r) (simp_all add: plain_root_add plain_cube_object)
  then show ?thesis by (simp add: add_cubes_def add_cubes_plain_def)
qed

lemma plain_add_bone: "plain_root (add_bone texW texH r entry) = add_bone_plain (plain_root r) entry"
  by (simp add: add_bone_def add_bone_plain_def plain_add_cubes split: option.split)

lemma plain_build_model: "plain_root (build_model geom) = build_model_plain geom"
proof -
  have "plain_root (foldl (add_bone texW texH) r es) = foldl add_bone_plain (plain_root r) es"
    for texW texH r es
    by (induction es arbitrary: r) (simp_all add: plain_add_bone)
  moreover have "plain_root Object3D = Object3D"
    by (simp add: plain_root_def Object3D_def)
  ultimately show ?thesis
    by (simp add: build_model_def build_model_plain_def split: prod.split)
qed

lemma plain_mesh_idem [simp]: "plain_mesh (plain_mesh m) = plain_mesh m"
  by (simp add: plain_mesh_def)

lemma plain_child_idem [simp]: "plain_child (plain_child ch) = plain_child ch"
  by (cases ch) simp_all

lemma plain_root_idem [simp]: "plain_root (plain_root r) = plain_root r"
  by (simp add: plain_root_def)

lemma matrixWorld_plain: "matrixWorld (plain_root r) (plain_child ch) = matrixWorld r ch"
proof
  fix p
  show "matrixWorld (plain_root r) (plain_child ch) p = matrixWorld r ch p"
    by (cases ch) (simp_all add: plain_mesh_def root_matrix_def plain_root_def)
qed

lemma child_mesh_plain: "child_mesh (plain_child ch) = plain_mesh (child_mesh ch)"
  by (cases ch) simp_all

lemma expandByObject_plain:
  "expandByObject (plain_root r) b (plain_child ch) = expandByObject r b ch"
  by (simp add: expandByObject_def matrixWorld_plain child_mesh_plain plain_mesh_def
      computeBoundingBox_def)

lemma setFromObject_plain: "setFromObject (plain_root r) = setFromObject r"
proof -
  have "foldl (expandByObject (plain_root r)) b (map plain_child cs) = foldl (expandByObject r) b cs"
    for b cs
    by (induction cs arbitrary: b) (simp_all add: expandByObject_plain)
  then show ?thesis by (simp add: setFromObject_def plain_root_def)
qed

lemma normalize_plain: "plain_root (normalize r box) = normalize (plain_root r) box"
  by (simp add: normalize_def Let_def plain_root_def)

lemma frame_model_plain:
  "plain_viewer (frame_model r st) = frame_model (plain_root r) (plain_viewer st)"
  by (simp add: frame_model_def Let_def setFromObject_plain plain_viewer_def normalize_plain)

text \<open>
  C10. The two copies of \<^verbatim>\<open>loadModel\<close> agree on everything but texture coordinates. For
  every pair of responses and every state of the globals they fail with the same error
  or, with the UV arrays disregarded, leave the same globals: the same roots in the scene
  with the same children (meshes and pivot groups with their dimensions, positions and
  rotations), the same position and scale of the root, the same camera and orbit target.
  The root that \<^verbatim>\<open>src/app.js\<close> builds is the root of \<^verbatim>\<open>src/minecraftviewer/app.js\<close> with
  default UV arrays; both have the same number of children and the same bounding box.
\<close>

theorem copies_agree_up_to_uvs:
  "plain_outcome (loadModel resp st) = plain_outcome (loadModel_plain resp st)
   \<and> plain_root (build_model geom) = build_model_plain geom
   \<and> length (root_children (build_model geom)) = length (root_children (build_model_plain geom))
   \<and> setFromObject (build_model geom) = setFromObject (build_model_plain geom)
   \<and> camera_position (frame_model (build_model geom) st) = camera_position (frame_model (build_model_plain geom) st)
   \<and> camera_near (frame_model (build_model geom) st) = camera_near (frame_model (build_model_plain geom) st)
   \<and> camera_far (frame_model (build_model geom) st) = camera_far (frame_model (build_model_plain geom) st)
   \<and> controls_target (frame_model (build_model geom) st) = controls_target (frame_model (build_model_plain geom) st)"
proof -
  have b: "plain_root (build_model g) = build_model_plain g" for g
    by (rule plain_build_model)
  have i: "plain_root (build_model_plain g) = build_model_plain g" for g
    using plain_root_idem[of "build_model g"] by (simp add: b)
  have f: "plain_viewer (frame_model (build_model g) st) = plain_viewer (frame_model (build_model_plain g) st)" for g
    by (simp add: frame_model_plain b i)
  have o: "plain_outcome (loadModel resp st) = plain_outcome (loadModel_plain resp st)"
    by (simp add: loadModel_def loadModel_plain_def f split: sum.split option.split)
  have l: "length (root_children (build_model geom)) = length (root_children (build_model_plain geom))"
    using arg_cong[OF b[of geom], of "\<lambda>r. length (root_children r)"] by (simp add: plain_root_def)
  have s: "setFromObject (build_model geom) = setFromObject (build_model_plain geom)"
    using setFromObject_plain[of "build_model geom"] by (simp add: b)
  have c: "camera_position (frame_model (build_model geom) st) = camera_position (frame_model (build_model_plain geom) st)"
    "camera_near (frame_model (build_model geom) st) = camera_near (frame_model (build_model_plain geom) st)"
    "camera_far (frame_model (build_model geom) st) = camera_far (frame_model (build_model_plain geom) st)"
    "controls_target (frame_model (build_model geom) st) = controls_target (frame_model (build_model_plain geom) st)"
    by (simp_all add: frame_model_def Let_def s)
  show ?thesis using o b l s c by simp
qed

lemma two_cube_plain_root:
  "build_model_plain two_cube_geometry
     = \<lparr>root_children = [cube_object_plain first_cube, cube_object_plain second_cube],
        root_position = (0, 0, 0), root_scale = (1, 1, 1)\<rparr>"
  by (simp add: build_model_plain_def geometry_bones_def bones_map_def two_cube_geometry_def
      add_bone_plain_def add_cubes_plain_def add_def Object3D_def)

lemma two_cube_box:
  "setFromObject \<lparr>root_children = [cube_object_plain first_cube, cube_object_plain second_cube],
        root_position = (0, 0, 0), root_scale = (1, 1, 1)\<rparr>
     = Some ((0, 0, 0), (4, 4, 2))"
  by (simp add: setFromObject_def expandByObject_def first_cube_def second_cube_def
      cube_object_plain_def place_def Let_def cube_center_def Mesh_def BoxGeometry_def
      computeBoundingBox_def corners_def setFromPoints_def expandByPoint_def applyMatrix4_def
      isEmpty_def union_box_def root_matrix_def translate_def Object3D_def)

lemma two_cube_plain_load:
  "loadModel_plain (fetched two_cube_file) bootstrap_viewer
     = Loaded (bootstrap_viewer
         \<lparr>scene := [\<lparr>root_children = [cube_object_plain first_cube, cube_object_plain second_cube],
                     root_position = (- 2, - 2, - 1), root_scale = (15, 15, 15)\<rparr>],
          controls_target := (0, 0, 0),
          camera_position := (6.4, 4.8, 9.6),
          camera_near := 0.1,
          camera_far := 180\<rparr>)"
proof -
  obtain g where g: "geometry_entry two_cube_file = Inr g" "as_geometry g = Some two_cube_geometry"
    using two_cube_file_entry by blast
  have "frame_model (build_model_plain two_cube_geometry) bootstrap_viewer
     = bootstrap_viewer
         \<lparr>scene := [\<lparr>root_children = [cube_object_plain first_cube, cube_object_plain second_cube],
                     root_position = (- 2, - 2, - 1), root_scale = (15, 15, 15)\<rparr>],
          controls_target := (0, 0, 0),
          camera_position := (6.4, 4.8, 9.6),
          camera_near := 0.1,
          camera_far := 180\<rparr>"
    unfolding two_cube_plain_root
    by (simp add: frame_model_def two_cube_box normalize_def getSize_def getCenter_def isEmpty_def
        maxDimension_def Let_def bootstrap_viewer_def)
  then show ?thesis using g by (simp add: loadModel_plain_def fetched_def)
qed

theorem copies_agree_up_to_uvs_witness:
  "plain_outcome (loadModel (fetched two_cube_file) bootstrap_viewer)
     = Loaded (bootstrap_viewer
         \<lparr>scene := [\<lparr>root_children = [cube_object_plain first_cube, cube_object_plain second_cube],
                     root_position = (- 2, - 2, - 1), root_scale = (15, 15, 15)\<rparr>],
          controls_target := (0, 0, 0),
          camera_position := (6.4, 4.8, 9.6),
          camera_near := 0.1,
          camera_far := 180\<rparr>)
   \<and> length (root_children (build_model two_cube_geometry)) = 2
   \<and> setFromObject (build_model two_cube_geometry) = Some ((0, 0, 0), (4, 4, 2))"
proof -
  note t = copies_agree_up_to_uvs[of "fetched two_cube_file" bootstrap_viewer two_cube_geometry]
  have o: "plain_outcome (loadModel (fetched two_cube_file) bootstrap_viewer)
             = plain_outcome (loadModel_plain (fetched two_cube_file) bootstrap_viewer)"
    using t by blast
  have l: "length (root_children (build_model two_cube_geometry))
             = length (root_children (build_model_plain two_cube_geometry))"
    using t by blast
  have s: "setFromObject (build_model two_cube_geometry) = setFromObject (build_model_plain two_cube_geometry)"
    using t by blast
  have c: "plain_child (cube_object_plain x) = cube_object_plain x" for x
    by (simp add: cube_object_plain_def place_def Let_def plain_mesh_def Mesh_def BoxGeometry_def)
  have p: "plain_outcome (loadModel_plain (fetched two_cube_file) bootstrap_viewer)
     = Loaded (bootstrap_viewer
         \<lparr>scene := [\<lparr>root_children = [cube_object_plain first_cube, cube_object_plain second_cube],
                     root_position = (- 2, - 2, - 1), root_scale = (15, 15, 15)\<rparr>],
          controls_target := (0, 0, 0),
          camera_position := (6.4, 4.8, 9.6),
          camera_near := 0.1,
          camera_far := 180\<rparr>)"
    by (simp add: two_cube_plain_load plain_viewer_def plain_root_def c)
  show ?thesis
    using o p l s by (simp add: two_cube_plain_root two_cube_box)
qed

end
